theory Spec2Isabelle
  imports Main "HOL-Library.Word"
begin

section \<open>Data model of the OAT navigator\<close>

text \<open>
  The source is C. A pointer into the mapped image is an address, a natural number, with
  \<open>NULL\<close> the address 0; pointer arithmetic on the byte pointers of the image is addition
  of addresses (C leaves an overflowing pointer sum undefined, so no wrap-around is
  modelled). The 32-bit counters and offsets of the format are \<open>32 word\<close>.

  A pointer to one of the navigator's own structs (\<open>struct OatFile *\<close>,
  \<open>struct OatDexFile *\<close>, ...) is an option: \<open>None\<close> is the null pointer and
  \<open>Some s\<close> a pointer to a struct holding \<open>s\<close>. A function that writes through a result
  pointer takes the struct as it is before the call and returns it as it is afterwards.
  Reading a field through a null pointer that the source does not check first is the
  fault \<open>NullDereference\<close>; reading the header through a \<open>begin\<close> at which no header
  can be read is the fault \<open>UnmappedRead\<close>. The \<open>CHECK_RETURNFALSE\<close> and \<open>CHECK_RETURNNULL\<close> guards
  are the early returns of the model; the log lines (\<open>LOGF\<close>, \<open>LOGD\<close>) change no
  result and are left out.
\<close>

type_synonym addr = nat

abbreviation (input) NULL :: addr where
  "NULL \<equiv> 0"

datatype fault = NullDereference | UnmappedRead

text \<open>\<open>struct OatHeader\<close>: the two fields the navigator reads (\<open>dex_file_count_\<close>,
  \<open>key_value_store_size_\<close>).\<close>

record OatHeader =
  dex_file_count :: "32 word"
  key_value_store_size :: "32 word"

text \<open>\<open>struct OatFile\<close>, the image context; \<open>begin\<close> and \<open>end\<close> of the source are
  \<open>oat_begin\<close> and \<open>oat_end\<close> here, and \<open>header\<close> is the pointer to the header.\<close>

record OatFile =
  oat_begin :: addr
  oat_end :: addr
  header :: addr
  key_value_storage_start :: addr
  dex_file_storage_start :: addr

text \<open>A length-prefixed string of the image: \<open>length\<close> and \<open>content\<close> of the source.\<close>

record LengthString =
  str_length :: "32 word"
  str_content :: addr

record OatDexFileData =
  location_string :: LengthString
  dex_file_pointer :: addr
  class_definition_offsets :: addr

record OatDexFile =
  data :: OatDexFileData
  oat_file :: "OatFile option"
  index :: "32 word"

record DexClass =
  class_def :: addr

text \<open>\<open>struct OatClass\<close>; the decoded class metadata is opaque to the navigator and is
  the type parameter \<open>'cd\<close>.\<close>

record 'cd OatClass =
  dex_class :: DexClass
  oat_class_data :: 'cd
  oat_dex_file :: "OatDexFile option"

record DexMethod =
  class_method_idx :: "32 word"

text \<open>\<open>struct OatMethodOffsets\<close>: \<open>code_offset_\<close> of the source.\<close>

record OatMethodOffsets =
  code_offset :: "32 word"

record 'cd OatMethod =
  dex_method :: DexMethod
  oat_method_offsets :: "OatMethodOffsets option"
  oat_class :: "'cd OatClass option"

text \<open>
  The declarations of \<open>oat.h\<close> and the DEX parser are not part of the sources at hand.
  What the navigator takes from them is a parameter of every function below: the mapped
  bytes (read as a header, as bytes and as 32-bit words), the offset of
  \<open>key_value_store_\<close> in \<open>struct OatHeader\<close>, and the external functions, each with
  its in/out arguments made explicit (a function that writes through a pointer takes the
  old contents and returns the new ones next to its Boolean result).

  \<open>header_readable a\<close> says that the fields of a \<open>struct OatHeader\<close> at address \<open>a\<close>
  lie in mapped memory. \<open>oat_Setup\<close> is where the header is read first, through a
  \<open>begin\<close> that nothing has vouched for, and there the read is guarded by it. The
  lookups work on an image context that has been set up, whose header has therefore been
  read before; they take the memory behind it as mapped.
\<close>

record 'cd externs =
  header_at :: "addr \<Rightarrow> OatHeader"
  header_readable :: "addr \<Rightarrow> bool"
  mem8 :: "addr \<Rightarrow> char"
  mem32 :: "addr \<Rightarrow> 32 word"
  offsetof_key_value_store :: nat
  NumDexFiles :: "addr \<Rightarrow> 32 word"
  GetDexFileStoragePointer :: "addr \<Rightarrow> addr"
  ReadOatDexFileData :: "addr \<Rightarrow> addr \<Rightarrow> OatDexFileData \<Rightarrow> addr \<Rightarrow> bool \<times> addr \<times> OatDexFileData"
  dex_FindClass :: "addr \<Rightarrow> DexClass \<Rightarrow> string \<Rightarrow> bool \<times> DexClass"
  GetIndexForClassDef :: "addr \<Rightarrow> addr \<Rightarrow> 32 word"
  DecodeOatClassData :: "addr \<Rightarrow> addr \<Rightarrow> 'cd \<Rightarrow> bool \<times> 'cd"
  dex_FindDirectMethod :: "DexClass \<Rightarrow> DexMethod \<Rightarrow> string \<Rightarrow> string \<Rightarrow> bool \<times> DexMethod"
  dex_FindVirtualMethod :: "DexClass \<Rightarrow> DexMethod \<Rightarrow> string \<Rightarrow> string \<Rightarrow> bool \<times> DexMethod"
  GetOatMethodOffsets :: "'cd \<Rightarrow> 32 word \<Rightarrow> OatMethodOffsets option"

section \<open>C strings\<close>

text \<open>
  A \<open>const char *\<close> argument is a \<open>string option\<close>: \<open>Some s\<close> points at the bytes of
  \<open>s\<close> followed by the terminating NUL. \<open>c_str s\<close> is the string the C code sees,
  the bytes before the first NUL, and \<open>strlen\<close> its length; \<open>strncmp\<close> compares at
  most \<open>n\<close> bytes as unsigned chars and stops after an equal NUL.
\<close>

definition NUL :: char where
  "NUL = CHR 0x00"

definition cstr_at :: "string \<Rightarrow> nat \<Rightarrow> char" where
  "cstr_at s k = (if k < length s then s ! k else NUL)"

definition c_str :: "string \<Rightarrow> string" where
  "c_str s = takeWhile (\<lambda>c. c \<noteq> NUL) s"

definition strlen :: "string \<Rightarrow> nat" where
  "strlen s = length (c_str s)"

fun strncmp :: "(nat \<Rightarrow> char) \<Rightarrow> (nat \<Rightarrow> char) \<Rightarrow> nat \<Rightarrow> int" where
  "strncmp a b 0 = 0"
| "strncmp a b (Suc n) =
     (if a 0 \<noteq> b 0 then int (of_char (a 0)) - int (of_char (b 0))
      else if a 0 = NUL then 0
      else strncmp (\<lambda>k. a (Suc k)) (\<lambda>k. b (Suc k)) n)"

section \<open>Offset resolver and image context\<close>

text \<open>\<open>oat_PointerFromFileOffset\<close>.\<close>

definition oat_PointerFromFileOffset :: "OatFile option \<Rightarrow> 32 word \<Rightarrow> addr" where
  "oat_PointerFromFileOffset p_oat_file offset =
     (case p_oat_file of
        None \<Rightarrow> NULL
      | Some f \<Rightarrow> if offset = 0 then NULL else oat_begin f + unat offset)"

text \<open>\<open>oat_Setup\<close>; the two variants of the source are the same text. The result pointer
  is not checked by the source before it is written through, and
  \<open>header->key_value_store_size_\<close> is read through \<open>mem_begin\<close> with no check that the
  range holds a header.\<close>

definition oat_Setup ::
  "'cd externs \<Rightarrow> OatFile option \<Rightarrow> addr \<Rightarrow> addr \<Rightarrow> fault + bool \<times> OatFile option" where
  "oat_Setup X result mem_begin mem_end =
     (if \<not> (mem_begin \<noteq> NULL \<and> mem_end \<noteq> NULL) then Inr (False, result)
      else if \<not> (mem_end > mem_begin) then Inr (False, result)
      else (case result of
              None \<Rightarrow> Inl NullDereference
            | Some r \<Rightarrow>
                let kv = mem_begin + offsetof_key_value_store X
                in if \<not> header_readable X mem_begin then Inl UnmappedRead
                   else Inr (True, Some (r\<lparr>oat_begin := mem_begin, oat_end := mem_end,
                          header := mem_begin, key_value_storage_start := kv,
                          dex_file_storage_start :=
                            kv + unat (key_value_store_size (header_at X mem_begin))\<rparr>))))"

section \<open>Dex-file directory walker\<close>

text \<open>The loop of \<open>oat_FindDexFile\<close>: \<open>i\<close> is the loop counter, \<open>cursor\<close> the local
  \<open>data\<close> pointer that \<open>ReadOatDexFileData\<close> advances, \<open>result\<close> the struct behind the
  result pointer.\<close>

function FindDexFile_loop ::
  "'cd externs \<Rightarrow> OatFile \<Rightarrow> string \<Rightarrow> 32 word \<Rightarrow> addr \<Rightarrow> OatDexFile \<Rightarrow> bool \<times> OatDexFile" where
  "FindDexFile_loop X f location i cursor result =
     (if i < NumDexFiles X (header f) then
        (case ReadOatDexFileData X cursor (oat_end f) (data result) (header f) of
           (ok, cursor', d) \<Rightarrow>
             if \<not> ok then (False, result\<lparr>data := d\<rparr>)
             else
               let result' = result\<lparr>data := d, oat_file := Some f, index := i\<rparr>
               in if strlen location \<noteq> unat (str_length (location_string d))
                  then FindDexFile_loop X f location (i + 1) cursor' result'
                  else if strncmp (cstr_at location)
                            (\<lambda>k. mem8 X (str_content (location_string d) + k))
                            (strlen location) = 0
                  then (True, result')
                  else FindDexFile_loop X f location (i + 1) cursor' result')
      else (False, result))"
  by pat_completeness auto
termination
  by (relation "measure (\<lambda>(X, f, location, i, cursor, result).
        unat (NumDexFiles X (header f)) - unat i)")
     (simp_all, unat_arith+)

definition oat_FindDexFile ::
  "'cd externs \<Rightarrow> OatFile option \<Rightarrow> OatDexFile option \<Rightarrow> string option \<Rightarrow> bool \<times> OatDexFile option" where
  "oat_FindDexFile X p_oat_file result location =
     (case p_oat_file of None \<Rightarrow> (False, result) | Some f \<Rightarrow>
      case result of None \<Rightarrow> (False, None) | Some r \<Rightarrow>
      case location of None \<Rightarrow> (False, result) | Some loc \<Rightarrow>
        (case FindDexFile_loop X f loc 0 (GetDexFileStoragePointer X (header f)) r of
           (ret, r') \<Rightarrow> (ret, Some r')))"

text \<open>The loop of \<open>oat_GetOatDexFile\<close>; \<open>False\<close> is the early \<open>return false\<close>, \<open>True\<close>
  the normal end of the loop.\<close>

function GetOatDexFile_loop ::
  "'cd externs \<Rightarrow> OatFile \<Rightarrow> 32 word \<Rightarrow> 32 word \<Rightarrow> addr \<Rightarrow> OatDexFile \<Rightarrow> bool \<times> OatDexFile" where
  "GetOatDexFile_loop X f idx i cursor result =
     (if i < idx + 1 then
        (case ReadOatDexFileData X cursor (oat_end f) (data result) (header f) of
           (ok, cursor', d) \<Rightarrow>
             if \<not> ok then (False, result\<lparr>data := d\<rparr>)
             else GetOatDexFile_loop X f idx (i + 1) cursor' (result\<lparr>data := d\<rparr>))
      else (True, result))"
  by pat_completeness auto
termination
  by (relation "measure (\<lambda>(X, f, idx, i, cursor, result). unat (idx + 1) - unat i)")
     (simp_all, unat_arith+)

definition oat_GetOatDexFile ::
  "'cd externs \<Rightarrow> OatFile option \<Rightarrow> OatDexFile option \<Rightarrow> 32 word \<Rightarrow> bool \<times> OatDexFile option" where
  "oat_GetOatDexFile X p_oat_file result idx =
     (case p_oat_file of None \<Rightarrow> (False, result) | Some f \<Rightarrow>
      case result of None \<Rightarrow> (False, None) | Some r \<Rightarrow>
        if \<not> (idx < NumDexFiles X (header f)) then (False, result)
        else (case GetOatDexFile_loop X f idx 0 (GetDexFileStoragePointer X (header f)) r of
                (ok, r') \<Rightarrow>
                  if \<not> ok then (False, Some r')
                  else (True, Some (r'\<lparr>oat_file := Some f, index := idx\<rparr>))))"

section \<open>Class resolver\<close>

text \<open>\<open>oat_FindClassInDex\<close>, the class resolver of the richer variant. The per-class
  offset table is an array of 32-bit words in the image: entry \<open>k\<close> is the word at
  \<open>class_definition_offsets + 4 * k\<close>. The arguments of \<open>DecodeOatClassData\<close> read
  \<open>oat_dex_file->oat_file->end\<close>, which the source does not guard.\<close>

definition oat_FindClassInDex ::
  "'cd externs \<Rightarrow> OatDexFile option \<Rightarrow> 'cd OatClass option \<Rightarrow> string option
     \<Rightarrow> fault + bool \<times> 'cd OatClass option" where
  "oat_FindClassInDex X p_oat_dex_file clazz descriptor =
     (case p_oat_dex_file of None \<Rightarrow> Inr (False, clazz) | Some d \<Rightarrow>
      case clazz of None \<Rightarrow> Inr (False, None) | Some c \<Rightarrow>
      case descriptor of None \<Rightarrow> Inr (False, clazz) | Some desc \<Rightarrow>
        (case dex_FindClass X (dex_file_pointer (data d)) (dex_class c) desc of
           (found, dc) \<Rightarrow>
             if \<not> found then Inr (False, Some (c\<lparr>dex_class := dc\<rparr>))
             else
               let class_def_index =
                     GetIndexForClassDef X (dex_file_pointer (data d)) (class_def dc);
                   class_def_offset =
                     mem32 X (class_definition_offsets (data d) + 4 * unat class_def_index);
                   oat_class_def_pointer =
                     oat_PointerFromFileOffset (oat_file d) class_def_offset
               in (case oat_file d of
                     None \<Rightarrow> Inl NullDereference
                   | Some f \<Rightarrow>
                       (case DecodeOatClassData X oat_class_def_pointer (oat_end f)
                               (oat_class_data c) of
                          (ok, cd) \<Rightarrow>
                            if \<not> ok
                            then Inr (False, Some (c\<lparr>dex_class := dc, oat_class_data := cd\<rparr>))
                            else Inr (True, Some (c\<lparr>dex_class := dc, oat_class_data := cd,
                                   oat_dex_file := Some d\<rparr>))))))"

text \<open>\<open>oat_FindClass\<close> of the terse variant (\<open>art/oat.c\<close>): the same resolver, with the
  pointer computed as \<open>oat_file->begin + class_definition_offsets[class_def_index]\<close>.\<close>

definition oat_FindClass_terse ::
  "'cd externs \<Rightarrow> OatDexFile option \<Rightarrow> 'cd OatClass option \<Rightarrow> string option
     \<Rightarrow> fault + bool \<times> 'cd OatClass option" where
  "oat_FindClass_terse X p_oat_dex_file clazz descriptor =
     (case p_oat_dex_file of None \<Rightarrow> Inr (False, clazz) | Some d \<Rightarrow>
      case clazz of None \<Rightarrow> Inr (False, None) | Some c \<Rightarrow>
      case descriptor of None \<Rightarrow> Inr (False, clazz) | Some desc \<Rightarrow>
        (case dex_FindClass X (dex_file_pointer (data d)) (dex_class c) desc of
           (found, dc) \<Rightarrow>
             if \<not> found then Inr (False, Some (c\<lparr>dex_class := dc\<rparr>))
             else
               let class_def_index =
                     GetIndexForClassDef X (dex_file_pointer (data d)) (class_def dc)
               in (case oat_file d of
                     None \<Rightarrow> Inl NullDereference
                   | Some f \<Rightarrow>
                       let oat_class_def_pointer =
                             oat_begin f
                             + unat (mem32 X (class_definition_offsets (data d)
                                                + 4 * unat class_def_index))
                       in (case DecodeOatClassData X oat_class_def_pointer (oat_end f)
                                  (oat_class_data c) of
                             (ok, cd) \<Rightarrow>
                               if \<not> ok
                               then Inr (False, Some (c\<lparr>dex_class := dc, oat_class_data := cd\<rparr>))
                               else Inr (True, Some (c\<lparr>dex_class := dc, oat_class_data := cd,
                                      oat_dex_file := Some d\<rparr>))))))"

text \<open>The loop of \<open>oat_FindClass\<close> (richer variant). Both result pointers are non-null
  inside the loop; they are threaded as pointers because \<open>oat_GetOatDexFile\<close> and
  \<open>oat_FindClassInDex\<close> take them so.\<close>

function FindClass_loop ::
  "'cd externs \<Rightarrow> OatFile \<Rightarrow> string \<Rightarrow> 32 word \<Rightarrow> OatDexFile option \<Rightarrow> 'cd OatClass option
     \<Rightarrow> fault + bool \<times> OatDexFile option \<times> 'cd OatClass option" where
  "FindClass_loop X oat descriptor i result_oat_dex_file result_clazz =
     (if i < dex_file_count (header_at X (header oat)) then
        (case oat_GetOatDexFile X (Some oat) result_oat_dex_file i of
           (ok, rd) \<Rightarrow>
             if \<not> ok then Inr (False, rd, result_clazz)
             else (case oat_FindClassInDex X rd result_clazz (Some descriptor) of
                     Inl e \<Rightarrow> Inl e
                   | Inr (found, rc) \<Rightarrow>
                       if found then Inr (True, rd, rc)
                       else FindClass_loop X oat descriptor (i + 1) rd rc))
      else Inr (False, result_oat_dex_file, result_clazz))"
  by pat_completeness auto
termination
  by (relation "measure (\<lambda>(X, oat, descriptor, i, rd, rc).
        unat (dex_file_count (header_at X (header oat))) - unat i)")
     (simp_all, unat_arith+)

text \<open>\<open>oat_FindClass\<close> (richer variant). The locals \<open>oat_dex_ignored\<close> and
  \<open>oat_class_ignored\<close> are uninitialised in the source; their contents on entry are
  arguments here. A null result pointer is replaced by the address of the local, and the
  caller then sees nothing of what was written.\<close>

definition oat_FindClass ::
  "'cd externs \<Rightarrow> OatDexFile \<Rightarrow> 'cd OatClass \<Rightarrow> OatFile option \<Rightarrow> OatDexFile option
     \<Rightarrow> 'cd OatClass option \<Rightarrow> string option
     \<Rightarrow> fault + bool \<times> OatDexFile option \<times> 'cd OatClass option" where
  "oat_FindClass X oat_dex_ignored oat_class_ignored oat result_oat_dex_file result_clazz
       descriptor =
     (case oat of None \<Rightarrow> Inr (False, result_oat_dex_file, result_clazz) | Some f \<Rightarrow>
      case descriptor of None \<Rightarrow> Inr (False, result_oat_dex_file, result_clazz)
      | Some desc \<Rightarrow>
          (case FindClass_loop X f desc 0
                  (if result_oat_dex_file = None then Some oat_dex_ignored
                   else result_oat_dex_file)
                  (if result_clazz = None then Some oat_class_ignored else result_clazz) of
             Inl e \<Rightarrow> Inl e
           | Inr (ret, rd, rc) \<Rightarrow>
               Inr (ret, if result_oat_dex_file = None then None else rd,
                         if result_clazz = None then None else rc)))"

section \<open>Method resolver and code locator\<close>

definition oat_FindDirectMethod ::
  "'cd externs \<Rightarrow> 'cd OatClass option \<Rightarrow> 'cd OatMethod option \<Rightarrow> string option
     \<Rightarrow> string option \<Rightarrow> bool \<times> 'cd OatMethod option" where
  "oat_FindDirectMethod X p_oat_class result descriptor signature =
     (case p_oat_class of None \<Rightarrow> (False, result) | Some c \<Rightarrow>
      case result of None \<Rightarrow> (False, None) | Some m \<Rightarrow>
      case descriptor of None \<Rightarrow> (False, result) | Some desc \<Rightarrow>
      case signature of None \<Rightarrow> (False, result) | Some sig \<Rightarrow>
        (case dex_FindDirectMethod X (dex_class c) (dex_method m) desc sig of
           (found, dm) \<Rightarrow>
             if \<not> found then (False, Some (m\<lparr>dex_method := dm\<rparr>))
             else
               let meth_off = GetOatMethodOffsets X (oat_class_data c) (class_method_idx dm)
               in (True, Some (m\<lparr>dex_method := dm, oat_method_offsets := meth_off,
                         oat_class := Some c\<rparr>))))"

definition oat_FindVirtualMethod ::
  "'cd externs \<Rightarrow> 'cd OatClass option \<Rightarrow> 'cd OatMethod option \<Rightarrow> string option
     \<Rightarrow> string option \<Rightarrow> bool \<times> 'cd OatMethod option" where
  "oat_FindVirtualMethod X p_oat_class result descriptor signature =
     (case p_oat_class of None \<Rightarrow> (False, result) | Some c \<Rightarrow>
      case result of None \<Rightarrow> (False, None) | Some m \<Rightarrow>
      case descriptor of None \<Rightarrow> (False, result) | Some desc \<Rightarrow>
      case signature of None \<Rightarrow> (False, result) | Some sig \<Rightarrow>
        (case dex_FindVirtualMethod X (dex_class c) (dex_method m) desc sig of
           (found, dm) \<Rightarrow>
             if \<not> found then (False, Some (m\<lparr>dex_method := dm\<rparr>))
             else
               let meth_off = GetOatMethodOffsets X (oat_class_data c) (class_method_idx dm)
               in (True, Some (m\<lparr>dex_method := dm, oat_method_offsets := meth_off,
                         oat_class := Some c\<rparr>))))"

definition oat_FindMethod ::
  "'cd externs \<Rightarrow> 'cd OatClass option \<Rightarrow> 'cd OatMethod option \<Rightarrow> string option
     \<Rightarrow> string option \<Rightarrow> bool \<times> 'cd OatMethod option" where
  "oat_FindMethod X p_oat_class result descriptor signature =
     (case oat_FindDirectMethod X p_oat_class result descriptor signature of
        (found, r) \<Rightarrow>
          if found then (True, r)
          else (case oat_FindVirtualMethod X p_oat_class r descriptor signature of
                  (found', r') \<Rightarrow> if found' then (True, r') else (False, r')))"

definition oat_HasQuickCompiledCode :: "'cd OatMethod option \<Rightarrow> bool" where
  "oat_HasQuickCompiledCode m =
     (case m of None \<Rightarrow> False | Some meth \<Rightarrow> oat_method_offsets meth \<noteq> None)"

text \<open>\<open>oat_GetQuickCompiledEntryPoint\<close>: only \<open>m\<close> itself is checked; the chain
  \<open>m->oat_class->oat_dex_file->oat_file->begin\<close> and then
  \<open>m->oat_method_offsets->code_offset_\<close> are read unguarded, in this order.\<close>

definition oat_GetQuickCompiledEntryPoint :: "'cd OatMethod option \<Rightarrow> fault + addr" where
  "oat_GetQuickCompiledEntryPoint m =
     (case m of None \<Rightarrow> Inr NULL | Some meth \<Rightarrow>
      case oat_class meth of None \<Rightarrow> Inl NullDereference | Some c \<Rightarrow>
      case oat_dex_file c of None \<Rightarrow> Inl NullDereference | Some d \<Rightarrow>
      case oat_file d of None \<Rightarrow> Inl NullDereference | Some f \<Rightarrow>
        let oat_base = oat_begin f
        in (case oat_method_offsets meth of
              None \<Rightarrow> Inl NullDereference
            | Some off \<Rightarrow> Inr (unat (code_offset off) + oat_base)))"

section \<open>The record stream and exact matching, as the specification words them\<close>

text \<open>
  A full forward walk of the stream: \<open>n\<close> records decoded one after the other from
  \<open>cursor\<close> into the buffer holding \<open>d\<close>. The result is the list of the records
  decoded, and whether all \<open>n\<close> were (\<open>False\<close>: the walk stopped at a record that could
  not be decoded).
\<close>

fun forward_walk ::
  "'cd externs \<Rightarrow> OatFile \<Rightarrow> nat \<Rightarrow> addr \<Rightarrow> OatDexFileData \<Rightarrow> bool \<times> OatDexFileData list" where
  "forward_walk X f 0 cursor d = (True, [])"
| "forward_walk X f (Suc n) cursor d =
     (case ReadOatDexFileData X cursor (oat_end f) d (header f) of
        (ok, cursor', d') \<Rightarrow>
          if \<not> ok then (False, [])
          else (case forward_walk X f n cursor' d' of (complete, ds) \<Rightarrow> (complete, d' # ds)))"

text \<open>The location string of a decoded record: \<open>length\<close> bytes of the image at
  \<open>content\<close>. A query matches a record when both are the same bytes: same length, same
  content.\<close>

definition location_bytes :: "'cd externs \<Rightarrow> OatDexFileData \<Rightarrow> string" where
  "location_bytes X d =
     map (\<lambda>k. mem8 X (str_content (location_string d) + k))
       [0..<unat (str_length (location_string d))]"

definition location_matches :: "'cd externs \<Rightarrow> string \<Rightarrow> OatDexFileData \<Rightarrow> bool" where
  "location_matches X location d = (location_bytes X d = c_str location)"

text \<open>The search across the dex-file records in the specification's words: the indices
  are tried in order; a failing \<open>oat_GetOatDexFile\<close> ends the search with \<open>false\<close>; the
  first index at which the class resolver succeeds ends it with \<open>true\<close>; a class
  resolver that returns \<open>false\<close> moves the search to the next index.\<close>

fun first_success_search ::
  "'cd externs \<Rightarrow> OatFile \<Rightarrow> string \<Rightarrow> 32 word list \<Rightarrow> OatDexFile option \<Rightarrow> 'cd OatClass option
     \<Rightarrow> fault + bool \<times> OatDexFile option \<times> 'cd OatClass option" where
  "first_success_search X oat descriptor [] rd rc = Inr (False, rd, rc)"
| "first_success_search X oat descriptor (i # rest) rd rc =
     (case oat_GetOatDexFile X (Some oat) rd i of
        (ok, rd') \<Rightarrow>
          if \<not> ok then Inr (False, rd', rc)
          else (case oat_FindClassInDex X rd' rc (Some descriptor) of
                  Inl e \<Rightarrow> Inl e
                | Inr (found, rc') \<Rightarrow>
                    if found then Inr (True, rd', rc')
                    else first_success_search X oat descriptor rest rd' rc'))"

text \<open>Two notions for comparing the two variants of the class resolver: the entry of the
  per-class offset table that belongs to a class handle, and the outcome of the resolver
  once the class metadata is decoded at a given pointer.\<close>

definition class_def_offset :: "'cd externs \<Rightarrow> OatDexFile \<Rightarrow> DexClass \<Rightarrow> 32 word" where
  "class_def_offset X d dc =
     mem32 X (class_definition_offsets (data d)
              + 4 * unat (GetIndexForClassDef X (dex_file_pointer (data d)) (class_def dc)))"

definition class_decoded_at ::
  "'cd externs \<Rightarrow> OatDexFile \<Rightarrow> 'cd OatClass \<Rightarrow> DexClass \<Rightarrow> OatFile \<Rightarrow> addr
     \<Rightarrow> fault + bool \<times> 'cd OatClass option" where
  "class_decoded_at X d c dc f p =
     (case DecodeOatClassData X p (oat_end f) (oat_class_data c) of
        (ok, cd) \<Rightarrow>
          if ok then Inr (True, Some (c\<lparr>dex_class := dc, oat_class_data := cd,
                            oat_dex_file := Some d\<rparr>))
          else Inr (False, Some (c\<lparr>dex_class := dc, oat_class_data := cd\<rparr>)))"

text \<open>
  The three outcomes the specification gives a search, and which of them each search has
  on given inputs. By location: found when a record decoded by the forward walk matches
  (the walk stops at the first record that cannot be decoded), not found when the walk
  is complete and none matches, failure when the walk stops short with no match before.
  For a class in one dex-file record of the image \<open>f\<close>: not found when the DEX parser
  does not know the descriptor, failure when it does and the class metadata at the
  resolved pointer cannot be decoded, found otherwise. Across the file, along the indices
  tried in order: found at the first record whose class resolver succeeds, failure when a
  dex-file record cannot be fetched or, with nothing found, when the class metadata of
  some record tried could not be decoded (\<open>failed\<close> keeps track of that), not found
  otherwise.
\<close>

datatype outcome = Found | NotFound | Failure

definition find_by_location_outcome ::
  "'cd externs \<Rightarrow> OatFile \<Rightarrow> OatDexFileData \<Rightarrow> string \<Rightarrow> outcome" where
  "find_by_location_outcome X f d location =
     (case forward_walk X f (unat (NumDexFiles X (header f)))
             (GetDexFileStoragePointer X (header f)) d of
        (complete, recs) \<Rightarrow>
          if \<exists>rec\<in>set recs. location_matches X location rec then Found
          else if complete then NotFound
          else Failure)"

definition find_class_outcome ::
  "'cd externs \<Rightarrow> OatDexFile \<Rightarrow> OatFile \<Rightarrow> 'cd OatClass \<Rightarrow> string \<Rightarrow> outcome" where
  "find_class_outcome X d f c descriptor =
     (case dex_FindClass X (dex_file_pointer (data d)) (dex_class c) descriptor of
        (found, dc) \<Rightarrow>
          if \<not> found then NotFound
          else if fst (DecodeOatClassData X
                         (oat_PointerFromFileOffset (Some f) (class_def_offset X d dc))
                         (oat_end f) (oat_class_data c))
          then Found
          else Failure)"

fun find_class_across_file_outcome ::
  "'cd externs \<Rightarrow> OatFile \<Rightarrow> string \<Rightarrow> 32 word list \<Rightarrow> OatDexFile option \<Rightarrow> 'cd OatClass option
     \<Rightarrow> bool \<Rightarrow> outcome" where
  "find_class_across_file_outcome X oat descriptor [] rd rc failed =
     (if failed then Failure else NotFound)"
| "find_class_across_file_outcome X oat descriptor (i # rest) rd rc failed =
     (case oat_GetOatDexFile X (Some oat) rd i of
        (ok, rd') \<Rightarrow>
          if \<not> ok then Failure
          else (case oat_FindClassInDex X rd' rc (Some descriptor) of
                  Inl e \<Rightarrow> Failure
                | Inr (found, rc') \<Rightarrow>
                    if found then Found
                    else find_class_across_file_outcome X oat descriptor rest rd' rc'
                           (failed \<or> (case (rd', rc) of
                                        (Some d, Some c) \<Rightarrow>
                                          find_class_outcome X d oat c descriptor = Failure
                                      | _ \<Rightarrow> False))))"

section \<open>A sample image\<close>

text \<open>
  A small image used to evaluate the functions: mapped at \<open>[4096, 8192)\<close> and nowhere
  else (a header, 84 bytes before its key-value store, can be read where it fits into
  that range), two dex-file
  records with the location strings \<open>classes.dex\<close> (11 bytes at 4200) and
  \<open>classes2.dex\<close> (12 bytes at 4231). The record decoder fails when a record would
  cross \<open>end\<close>. The first dex file defines \<open>LFoo;\<close> (class-def index 0, offset-table
  entry 20480, which points past \<open>end\<close>) and \<open>LBar;\<close> (index 1, entry 0); the second
  defines \<open>LFoo;\<close> (index 0, entry 512). The class-metadata decoder fails on a null
  pointer and on a pointer at or past \<open>end\<close>, and the decoded metadata is the address it
  was read from. Method index 0 has compiled code at offset 1024, the others have none.
\<close>

definition sample_record0 :: OatDexFileData where
  "sample_record0 =
     \<lparr>location_string = \<lparr>str_length = 11, str_content = 4200\<rparr>,
      dex_file_pointer = 5000, class_definition_offsets = 4219\<rparr>"

definition sample_record1 :: OatDexFileData where
  "sample_record1 =
     \<lparr>location_string = \<lparr>str_length = 12, str_content = 4231\<rparr>,
      dex_file_pointer = 6000, class_definition_offsets = 4251\<rparr>"

definition sample_mem8 :: "addr \<Rightarrow> char" where
  "sample_mem8 a =
     (if 4200 \<le> a \<and> a < 4211 then ''classes.dex'' ! (a - 4200)
      else if 4231 \<le> a \<and> a < 4243 then ''classes2.dex'' ! (a - 4231)
      else NUL)"

definition sample_mem32 :: "addr \<Rightarrow> 32 word" where
  "sample_mem32 a =
     (if a = 4219 then 20480 else if a = 4223 then 0 else if a = 4251 then 512 else 0)"

definition sample_read ::
  "addr \<Rightarrow> addr \<Rightarrow> OatDexFileData \<Rightarrow> addr \<Rightarrow> bool \<times> addr \<times> OatDexFileData" where
  "sample_read cursor e d h =
     (if cursor = 4196 \<and> 4227 \<le> e then (True, 4227, sample_record0)
      else if cursor = 4227 \<and> 4255 \<le> e then (True, 4255, sample_record1)
      else (False, cursor, d))"

definition sample_dex_FindClass :: "addr \<Rightarrow> DexClass \<Rightarrow> string \<Rightarrow> bool \<times> DexClass" where
  "sample_dex_FindClass dex dc descriptor =
     (if descriptor = ''LFoo;'' \<and> (dex = 5000 \<or> dex = 6000)
      then (True, \<lparr>class_def = dex + 100\<rparr>)
      else if descriptor = ''LBar;'' \<and> dex = 5000 then (True, \<lparr>class_def = dex + 132\<rparr>)
      else (False, dc))"

definition sample_decode :: "addr \<Rightarrow> addr \<Rightarrow> nat \<Rightarrow> bool \<times> nat" where
  "sample_decode p e cd = (if p \<noteq> NULL \<and> p < e then (True, p) else (False, cd))"

definition sample_find_direct ::
  "DexClass \<Rightarrow> DexMethod \<Rightarrow> string \<Rightarrow> string \<Rightarrow> bool \<times> DexMethod" where
  "sample_find_direct dc dm descriptor signature =
     (if descriptor = ''<init>'' \<and> signature = ''()V'' then (True, \<lparr>class_method_idx = 0\<rparr>)
      else if descriptor = ''helper'' \<and> signature = ''()V''
      then (True, \<lparr>class_method_idx = 1\<rparr>)
      else (False, dm))"

definition sample_find_virtual ::
  "DexClass \<Rightarrow> DexMethod \<Rightarrow> string \<Rightarrow> string \<Rightarrow> bool \<times> DexMethod" where
  "sample_find_virtual dc dm descriptor signature =
     (if descriptor = ''run'' \<and> signature = ''()V'' then (True, \<lparr>class_method_idx = 2\<rparr>)
      else (False, dm))"

definition sample_image :: "nat externs" where
  "sample_image =
     \<lparr>header_at = (\<lambda>a. \<lparr>dex_file_count = 2, key_value_store_size = 16\<rparr>),
      header_readable = (\<lambda>a. 4096 \<le> a \<and> a + 84 \<le> 8192),
      mem8 = sample_mem8,
      mem32 = sample_mem32,
      offsetof_key_value_store = 84,
      NumDexFiles = (\<lambda>h. 2),
      GetDexFileStoragePointer = (\<lambda>h. h + 100),
      ReadOatDexFileData = sample_read,
      dex_FindClass = sample_dex_FindClass,
      GetIndexForClassDef = (\<lambda>dex cdef. of_nat ((cdef - (dex + 100)) div 32)),
      DecodeOatClassData = sample_decode,
      dex_FindDirectMethod = sample_find_direct,
      dex_FindVirtualMethod = sample_find_virtual,
      GetOatMethodOffsets = (\<lambda>cd idx. if idx = 0 then Some \<lparr>code_offset = 1024\<rparr> else None)\<rparr>"

definition sample_oat :: OatFile where
  "sample_oat =
     \<lparr>oat_begin = 4096, oat_end = 8192, header = 4096, key_value_storage_start = 4180,
      dex_file_storage_start = 4196\<rparr>"

text \<open>The two dex-file records of the sample image, as decoded.\<close>

definition sample_dex0 :: OatDexFile where
  "sample_dex0 = \<lparr>data = sample_record0, oat_file = Some sample_oat, index = 0\<rparr>"

definition sample_dex1 :: OatDexFile where
  "sample_dex1 = \<lparr>data = sample_record1, oat_file = Some sample_oat, index = 1\<rparr>"

text \<open>Zeroed result structs, as a caller would pass them.\<close>

definition blank_dex_file :: OatDexFile where
  "blank_dex_file =
     \<lparr>data = \<lparr>location_string = \<lparr>str_length = 0, str_content = NULL\<rparr>,
              dex_file_pointer = NULL, class_definition_offsets = NULL\<rparr>,
      oat_file = None, index = 0\<rparr>"

definition blank_class :: "nat OatClass" where
  "blank_class = \<lparr>dex_class = \<lparr>class_def = NULL\<rparr>, oat_class_data = 0, oat_dex_file = None\<rparr>"

definition blank_method :: "nat OatMethod" where
  "blank_method =
     \<lparr>dex_method = \<lparr>class_method_idx = 0\<rparr>, oat_method_offsets = None, oat_class = None\<rparr>"

lemmas sample_defs =
  sample_image_def sample_oat_def sample_dex0_def sample_dex1_def sample_record0_def sample_record1_def sample_mem8_def
  sample_mem32_def sample_read_def sample_dex_FindClass_def sample_decode_def
  sample_find_direct_def sample_find_virtual_def blank_dex_file_def blank_class_def
  blank_method_def

text \<open>Variants of the sample image: with its first dex-file record only; with a second
  record that cannot be decoded; with a DEX parser that knows no class. And a class
  result struct that a caller uses again after an earlier lookup of \<open>LFoo;\<close>.\<close>

definition sample_image_one_record :: "nat externs" where
  "sample_image_one_record =
     sample_image\<lparr>header_at := (\<lambda>a. \<lparr>dex_file_count = 1, key_value_store_size = 16\<rparr>),
                  NumDexFiles := (\<lambda>h. 1)\<rparr>"

definition sample_image_corrupt :: "nat externs" where
  "sample_image_corrupt =
     sample_image\<lparr>ReadOatDexFileData :=
       (\<lambda>cursor e d h. if cursor = 4196 then sample_read cursor e d h else (False, cursor, d))\<rparr>"

definition sample_image_no_classes :: "nat externs" where
  "sample_image_no_classes = sample_image\<lparr>dex_FindClass := (\<lambda>dex dc descriptor. (False, dc))\<rparr>"

definition reused_class :: "nat OatClass" where
  "reused_class = blank_class\<lparr>dex_class := \<lparr>class_def = 5100\<rparr>\<rparr>"

lemmas sample_variant_defs =
  sample_image_one_record_def sample_image_corrupt_def sample_image_no_classes_def
  reused_class_def

text \<open>The loops are unfolded by hand in the proofs below, one iteration at a time.\<close>

declare FindDexFile_loop.simps [simp del]
declare GetOatDexFile_loop.simps [simp del]
declare FindClass_loop.simps [simp del]

section \<open>Offset resolver: properties\<close>

text \<open>
  C7. For every image context and every 32-bit offset, \<open>oat_PointerFromFileOffset\<close>
  returns \<open>begin + offset\<close> when the offset is positive and the null pointer when it is
  zero. The result does not depend on \<open>end\<close> or on any other field of the context (no
  bounds check), and the function is pure.
\<close>

theorem C7_offset_resolver:
  "oat_PointerFromFileOffset (Some f) offset =
     (if 0 < offset then oat_begin f + unat offset else NULL)
   \<and> oat_PointerFromFileOffset (Some (f\<lparr>oat_end := e\<rparr>)) offset =
       oat_PointerFromFileOffset (Some f) offset"
  by (simp add: oat_PointerFromFileOffset_def word_neq_0_conv)

theorem C7_offset_resolver_witness:
  "oat_PointerFromFileOffset
     (Some \<lparr>oat_begin = 4096, oat_end = 4100, header = 4096,
            key_value_storage_start = 4180, dex_file_storage_start = 4200\<rparr>) 65536 = 69632
   \<and> oat_PointerFromFileOffset
     (Some \<lparr>oat_begin = 4096, oat_end = 4100, header = 4096,
            key_value_storage_start = 4180, dex_file_storage_start = 4200\<rparr>) 0 = NULL"
  using C7_offset_resolver
    [of "\<lparr>oat_begin = 4096, oat_end = 4100, header = 4096,
          key_value_storage_start = 4180, dex_file_storage_start = 4200\<rparr>" 65536 4100]
    C7_offset_resolver
    [of "\<lparr>oat_begin = 4096, oat_end = 4100, header = 4096,
          key_value_storage_start = 4180, dex_file_storage_start = 4200\<rparr>" 0 4100]
  by simp

section \<open>Image context setup: properties\<close>

text \<open>
  C9. \<open>oat_Setup\<close> (with a result struct to write to) returns \<open>false\<close> exactly when
  \<open>begin\<close> is null, \<open>end\<close> is null or \<open>end \<le> begin\<close>, and then leaves the result
  untouched. For a range that passes these checks and a header that can be read at
  \<open>begin\<close>, it succeeds and stores \<open>begin\<close>, \<open>end\<close>, the header pointer \<open>begin\<close>,
  \<open>key_value_storage_start = begin + offsetof(key_value_store_)\<close> and
  \<open>dex_file_storage_start = key_value_storage_start + header.key_value_store_size_\<close>,
  whatever the relation of that last address to \<open>end\<close>. Nothing checks that the range
  holds a header: where none can be read at \<open>begin\<close>, the read of
  \<open>key_value_store_size_\<close> faults.
\<close>

theorem C9_setup:
  "((\<exists>res. oat_Setup X (Some r) mem_begin mem_end = Inr (False, res))
      = (mem_begin = NULL \<or> mem_end = NULL \<or> mem_end \<le> mem_begin))
   \<and> (mem_begin = NULL \<or> mem_end = NULL \<or> mem_end \<le> mem_begin
        \<longrightarrow> oat_Setup X (Some r) mem_begin mem_end = Inr (False, Some r))
   \<and> (mem_begin \<noteq> NULL \<and> mem_end \<noteq> NULL \<and> mem_begin < mem_end
        \<and> header_readable X mem_begin
        \<longrightarrow> oat_Setup X (Some r) mem_begin mem_end =
              Inr (True, Some (r\<lparr>oat_begin := mem_begin, oat_end := mem_end,
                    header := mem_begin,
                    key_value_storage_start := mem_begin + offsetof_key_value_store X,
                    dex_file_storage_start :=
                      mem_begin + offsetof_key_value_store X
                      + unat (key_value_store_size (header_at X mem_begin))\<rparr>)))
   \<and> (mem_begin \<noteq> NULL \<and> mem_end \<noteq> NULL \<and> mem_begin < mem_end
        \<and> \<not> header_readable X mem_begin
        \<longrightarrow> oat_Setup X (Some r) mem_begin mem_end = Inl UnmappedRead)"
  by (auto simp: oat_Setup_def Let_def)

text \<open>On the sample image: the range \<open>[4096, 4190)\<close> holds the 84 bytes of the header,
  and the set-up succeeds although the dex-file stream then starts at 4196, past \<open>end\<close>;
  with \<open>end = begin\<close> or a null \<open>begin\<close> it returns \<open>false\<close>; on \<open>[8188, 8192)\<close>,
  too short for a header at the end of the mapping, the header read faults.\<close>

theorem C9_setup_witness:
  "oat_Setup sample_image (Some sample_oat) 4096 4190 =
     Inr (True, Some \<lparr>oat_begin = 4096, oat_end = 4190, header = 4096,
                      key_value_storage_start = 4180, dex_file_storage_start = 4196\<rparr>)
   \<and> oat_Setup sample_image (Some sample_oat) 4096 4096 = Inr (False, Some sample_oat)
   \<and> oat_Setup sample_image (Some sample_oat) NULL 4096 = Inr (False, Some sample_oat)
   \<and> oat_Setup sample_image (Some sample_oat) 8188 8192 = Inl UnmappedRead"
proof -
  have a: "oat_Setup sample_image (Some sample_oat) 4096 4190 =
     Inr (True, Some (sample_oat\<lparr>oat_begin := 4096, oat_end := 4190, header := 4096,
            key_value_storage_start := 4096 + offsetof_key_value_store sample_image,
            dex_file_storage_start :=
              4096 + offsetof_key_value_store sample_image
              + unat (key_value_store_size (header_at sample_image 4096))\<rparr>))"
    by (rule C9_setup [of sample_image sample_oat 4096 4190,
          THEN conjunct2, THEN conjunct2, THEN conjunct1, rule_format])
       (simp add: sample_defs)
  have b: "oat_Setup sample_image (Some sample_oat) 4096 4096 = Inr (False, Some sample_oat)"
    by (rule C9_setup [of sample_image sample_oat 4096 4096,
          THEN conjunct2, THEN conjunct1, rule_format])
       simp
  have c: "oat_Setup sample_image (Some sample_oat) NULL 4096 = Inr (False, Some sample_oat)"
    by (rule C9_setup [of sample_image sample_oat NULL 4096,
          THEN conjunct2, THEN conjunct1, rule_format])
       simp
  have d: "oat_Setup sample_image (Some sample_oat) 8188 8192 = Inl UnmappedRead"
    by (rule C9_setup [of sample_image sample_oat 8188 8192,
          THEN conjunct2, THEN conjunct2, THEN conjunct2, rule_format])
       (simp add: sample_defs)
  show ?thesis using a b c d by (simp add: sample_defs)
qed

section \<open>Code locator: properties\<close>

text \<open>
  C8. For a method record whose compiled-code-offset record is present with code offset
  \<open>k\<close> (and whose back-references lead to an image context), the entry point is exactly
  \<open>begin + k\<close>. It is the plain sum, not the offset resolver: the two agree exactly when
  \<open>k\<close> is not zero (or \<open>begin\<close> is null).
\<close>

theorem C8_entry_point:
  assumes "oat_class m = Some c" and "oat_dex_file c = Some d" and "oat_file d = Some f"
    and "oat_method_offsets m = Some off"
  shows "oat_GetQuickCompiledEntryPoint (Some m) = Inr (oat_begin f + unat (code_offset off))
    \<and> ((oat_GetQuickCompiledEntryPoint (Some m)
          = Inr (oat_PointerFromFileOffset (Some f) (code_offset off)))
        = (code_offset off \<noteq> 0 \<or> oat_begin f = NULL))"
  using assms
  by (auto simp: oat_GetQuickCompiledEntryPoint_def oat_PointerFromFileOffset_def)

theorem C8_entry_point_witness:
  "oat_GetQuickCompiledEntryPoint
     (Some \<lparr>dex_method = \<lparr>class_method_idx = 0\<rparr>,
            oat_method_offsets = Some \<lparr>code_offset = 1024\<rparr>,
            oat_class = Some (blank_class\<lparr>oat_dex_file :=
              Some (blank_dex_file\<lparr>oat_file := Some sample_oat\<rparr>)\<rparr>)\<rparr>) = Inr 5120"
  using C8_entry_point
    [of "\<lparr>dex_method = \<lparr>class_method_idx = 0\<rparr>,
          oat_method_offsets = Some \<lparr>code_offset = 1024\<rparr>,
          oat_class = Some (blank_class\<lparr>oat_dex_file :=
            Some (blank_dex_file\<lparr>oat_file := Some sample_oat\<rparr>)\<rparr>)\<rparr>"
        "blank_class\<lparr>oat_dex_file := Some (blank_dex_file\<lparr>oat_file := Some sample_oat\<rparr>)\<rparr>"
        "blank_dex_file\<lparr>oat_file := Some sample_oat\<rparr>"
        sample_oat "\<lparr>code_offset = 1024\<rparr>"]
  by (simp add: sample_defs)

text \<open>
  C1. A method found by \<open>oat_FindDirectMethod\<close>, \<open>oat_FindVirtualMethod\<close> or
  \<open>oat_FindMethod\<close> whose compiled-code-offset record is absent:
  \<open>oat_HasQuickCompiledCode\<close> is false, as claimed, but
  \<open>oat_GetQuickCompiledEntryPoint\<close> does not return the null pointer: it reads
  \<open>code_offset_\<close> through the null \<open>oat_method_offsets\<close>.
\<close>

theorem C1_entry_point_without_code:
  assumes "oat_FindDirectMethod X (Some c) (Some m0) (Some descriptor) (Some signature)
             = (True, Some m)
           \<or> oat_FindVirtualMethod X (Some c) (Some m0) (Some descriptor) (Some signature)
             = (True, Some m)
           \<or> oat_FindMethod X (Some c) (Some m0) (Some descriptor) (Some signature)
             = (True, Some m)"
    and "oat_method_offsets m = None"
  shows "oat_HasQuickCompiledCode (Some m) = False
    \<and> oat_GetQuickCompiledEntryPoint (Some m) = Inl NullDereference"
  using assms(2)
  by (simp add: oat_HasQuickCompiledCode_def oat_GetQuickCompiledEntryPoint_def
      split: option.splits)

theorem C1_entry_point_without_code_witness:
  "oat_FindDirectMethod sample_image
       (Some (blank_class\<lparr>oat_dex_file := Some (blank_dex_file\<lparr>oat_file := Some sample_oat\<rparr>)\<rparr>))
       (Some blank_method) (Some ''helper'') (Some ''()V'')
     = (True, Some \<lparr>dex_method = \<lparr>class_method_idx = 1\<rparr>, oat_method_offsets = None,
          oat_class = Some (blank_class\<lparr>oat_dex_file :=
            Some (blank_dex_file\<lparr>oat_file := Some sample_oat\<rparr>)\<rparr>)\<rparr>)
   \<and> oat_HasQuickCompiledCode
       (Some \<lparr>dex_method = \<lparr>class_method_idx = 1\<rparr>, oat_method_offsets = None,
          oat_class = Some (blank_class\<lparr>oat_dex_file :=
            Some (blank_dex_file\<lparr>oat_file := Some sample_oat\<rparr>)\<rparr>)\<rparr>) = False
   \<and> oat_GetQuickCompiledEntryPoint
       (Some \<lparr>dex_method = \<lparr>class_method_idx = 1\<rparr>, oat_method_offsets = None,
          oat_class = Some (blank_class\<lparr>oat_dex_file :=
            Some (blank_dex_file\<lparr>oat_file := Some sample_oat\<rparr>)\<rparr>)\<rparr>)
     = Inl NullDereference"
proof -
  have found: "oat_FindDirectMethod sample_image
       (Some (blank_class\<lparr>oat_dex_file := Some (blank_dex_file\<lparr>oat_file := Some sample_oat\<rparr>)\<rparr>))
       (Some blank_method) (Some ''helper'') (Some ''()V'')
     = (True, Some \<lparr>dex_method = \<lparr>class_method_idx = 1\<rparr>, oat_method_offsets = None,
          oat_class = Some (blank_class\<lparr>oat_dex_file :=
            Some (blank_dex_file\<lparr>oat_file := Some sample_oat\<rparr>)\<rparr>)\<rparr>)"
    by (simp add: oat_FindDirectMethod_def sample_defs)
  show ?thesis
    using found C1_entry_point_without_code [OF disjI1 [OF found]] by simp
qed

section \<open>Dex-file directory walker: properties\<close>

lemma word32_succ: "i < (n::32 word) \<Longrightarrow> unat (i + 1) = Suc (unat i)"
  by unat_arith

lemma forward_walk_length:
  "forward_walk X f n p d = (True, recs) \<Longrightarrow> length recs = n"
  by (induction n arbitrary: p d recs) (auto split: prod.splits if_splits)

lemma strncmp_zero_iff:
  "(\<forall>k<n. a k \<noteq> NUL) \<Longrightarrow> (strncmp a b n = 0) = (\<forall>k<n. a k = b k)"
proof (induction n arbitrary: a b)
  case 0
  then show ?case by simp
next
  case (Suc n)
  have nz: "\<forall>k<n. a (Suc k) \<noteq> NUL" using Suc.prems by auto
  have a0: "a 0 \<noteq> NUL" using Suc.prems by auto
  show ?case
  proof (cases "a 0 = b 0")
    case True
    have "(\<forall>k<Suc n. a k = b k) = (\<forall>k<n. a (Suc k) = b (Suc k))"
      using True by (auto simp: less_Suc_eq_0_disj)
    then show ?thesis using True a0 Suc.IH [OF nz] by simp
  next
    case False
    then show ?thesis by auto
  qed
qed

lemma cstr_at_c_str:
  "k < strlen s \<Longrightarrow> cstr_at s k = c_str s ! k \<and> cstr_at s k \<noteq> NUL"
proof -
  assume k: "k < strlen s"
  have le: "strlen s \<le> length s" by (simp add: strlen_def c_str_def length_takeWhile_le)
  have eq: "c_str s ! k = s ! k"
    using k by (simp add: strlen_def c_str_def takeWhile_nth)
  have "c_str s ! k \<in> set (c_str s)" using k by (simp add: strlen_def)
  then have "c_str s ! k \<noteq> NUL" unfolding c_str_def by (auto dest: set_takeWhileD)
  then show ?thesis using eq k le by (simp add: cstr_at_def)
qed

lemma match_iff:
  "(strlen location = unat (str_length (location_string d))
      \<and> strncmp (cstr_at location) (\<lambda>k. mem8 X (str_content (location_string d) + k))
            (strlen location) = 0)
     = location_matches X location d"
proof -
  have nz: "\<forall>k. k < strlen location \<longrightarrow> cstr_at location k \<noteq> NUL"
    using cstr_at_c_str by blast
  show ?thesis
    unfolding strncmp_zero_iff [OF nz] location_matches_def location_bytes_def
    by (auto simp: list_eq_iff_nth_eq cstr_at_c_str strlen_def)
qed

lemma GetOatDexFile_loop_walk:
  assumes "forward_walk X f n p (data r) = (True, recs)"
    and "i \<le> idx" and "idx + 1 \<noteq> 0" and "unat idx - unat i < n"
  shows "GetOatDexFile_loop X f idx i p r = (True, r\<lparr>data := recs ! (unat idx - unat i)\<rparr>)"
  using assms
proof (induction n arbitrary: i p r recs)
  case 0
  then show ?case by simp
next
  case (Suc n)
  obtain ok p' d' where rd: "ReadOatDexFileData X p (oat_end f) (data r) (header f) = (ok, p', d')"
    by (cases "ReadOatDexFileData X p (oat_end f) (data r) (header f)") auto
  from Suc.prems(1) rd have ok: ok by (auto split: if_splits)
  from Suc.prems(1) rd ok obtain rest where
    rest: "forward_walk X f n p' d' = (True, rest)" and recs: "recs = d' # rest"
    by (auto split: prod.splits)
  have lt: "i < idx + 1" using Suc.prems(2,3) by unat_arith
  show ?case
  proof (cases "i = idx")
    case True
    have "\<not> (idx + 1 < idx + 1)" by simp
    then show ?thesis
      using True lt rd ok recs
      by (simp add: GetOatDexFile_loop.simps [of X f idx idx]
          GetOatDexFile_loop.simps [of X f idx "idx + 1"])
  next
    case False
    then have less: "i < idx" using Suc.prems(2) by simp
    have s: "unat (i + 1) = Suc (unat i)" using less by (rule word32_succ)
    have le': "i + 1 \<le> idx" using less by (rule inc_le)
    have b: "unat idx - unat (i + 1) < n" using Suc.prems(4) s less
      by (simp add: word_less_nat_alt)
    have w: "forward_walk X f n p' (data (r\<lparr>data := d'\<rparr>)) = (True, rest)" using rest by simp
    have ih: "GetOatDexFile_loop X f idx (i + 1) p' (r\<lparr>data := d'\<rparr>)
        = (True, r\<lparr>data := d'\<rparr>\<lparr>data := rest ! (unat idx - unat (i + 1))\<rparr>)"
      by (rule Suc.IH [OF w le' Suc.prems(3) b])
    have nth: "recs ! (unat idx - unat i) = rest ! (unat idx - unat (i + 1))"
      using s less recs by (simp add: word_less_nat_alt Suc_diff_Suc [symmetric] del: Suc_diff_Suc) 
    show ?thesis
      using lt rd ok ih nth by (simp add: GetOatDexFile_loop.simps [of X f idx i])
  qed
qed

lemma FindDexFile_loop_step:
  assumes "i < NumDexFiles X (header f)"
    and "ReadOatDexFileData X p (oat_end f) (data r) (header f) = (True, p', d')"
  shows "FindDexFile_loop X f location i p r =
     (if location_matches X location d'
      then (True, r\<lparr>data := d', oat_file := Some f, index := i\<rparr>)
      else FindDexFile_loop X f location (i + 1) p'
             (r\<lparr>data := d', oat_file := Some f, index := i\<rparr>))"
  using assms
  by (auto simp: FindDexFile_loop.simps [of X f location i] Let_def match_iff [symmetric])

lemma FindDexFile_loop_no_match:
  assumes "forward_walk X f n p (data r) = (complete, recs)"
    and "unat i + n = unat (NumDexFiles X (header f))"
    and "\<forall>d\<in>set recs. \<not> location_matches X location d"
  shows "fst (FindDexFile_loop X f location i p r) = False"
  using assms
proof (induction n arbitrary: i p r recs complete)
  case 0
  then have "\<not> i < NumDexFiles X (header f)" by (simp add: word_less_nat_alt)
  then show ?case by (simp add: FindDexFile_loop.simps [of X f location i])
next
  case (Suc n)
  obtain ok p' d' where rd: "ReadOatDexFileData X p (oat_end f) (data r) (header f) = (ok, p', d')"
    by (cases "ReadOatDexFileData X p (oat_end f) (data r) (header f)") auto
  have lt: "i < NumDexFiles X (header f)" using Suc.prems(2) by (simp add: word_less_nat_alt)
  show ?case
  proof (cases ok)
    case False
    then show ?thesis using lt rd by (simp add: FindDexFile_loop.simps [of X f location i])
  next
    case True
    obtain c' rest where rest: "forward_walk X f n p' d' = (c', rest)"
      by (cases "forward_walk X f n p' d'") auto
    have recs: "recs = d' # rest" using Suc.prems(1) rd True rest by simp
    let ?r = "r\<lparr>data := d', oat_file := Some f, index := i\<rparr>"
    have w: "forward_walk X f n p' (data ?r) = (c', rest)" using rest by simp
    have s: "unat (i + 1) + n = unat (NumDexFiles X (header f))"
      using Suc.prems(2) word32_succ [OF lt] by simp
    have nm: "\<forall>d\<in>set rest. \<not> location_matches X location d" using Suc.prems(3) recs by simp
    have "\<not> location_matches X location d'" using Suc.prems(3) recs by simp
    then have "FindDexFile_loop X f location i p r = FindDexFile_loop X f location (i + 1) p' ?r"
      using FindDexFile_loop_step [OF lt, of p r p' d' location] rd True by simp
    then show ?thesis using Suc.IH [OF w s nm] by simp
  qed
qed

lemma FindDexFile_loop_first_match:
  assumes "forward_walk X f n p (data r) = (complete, recs)"
    and "unat i + n = unat (NumDexFiles X (header f))"
    and "k < length recs" and "location_matches X location (recs ! k)"
    and "\<forall>j<k. \<not> location_matches X location (recs ! j)"
  shows "FindDexFile_loop X f location i p r
           = (True, r\<lparr>data := recs ! k, oat_file := Some f, index := i + of_nat k\<rparr>)"
  using assms
proof (induction n arbitrary: i p r recs complete k)
  case 0
  then show ?case by simp
next
  case (Suc n)
  obtain ok p' d' where rd: "ReadOatDexFileData X p (oat_end f) (data r) (header f) = (ok, p', d')"
    by (cases "ReadOatDexFileData X p (oat_end f) (data r) (header f)") auto
  have lt: "i < NumDexFiles X (header f)" using Suc.prems(2) by (simp add: word_less_nat_alt)
  have ok: ok using Suc.prems(1,3) rd by (cases ok) auto
  obtain c' rest where rest: "forward_walk X f n p' d' = (c', rest)"
    by (cases "forward_walk X f n p' d'") auto
  have recs: "recs = d' # rest" using Suc.prems(1) rd ok rest by simp
  let ?r = "r\<lparr>data := d', oat_file := Some f, index := i\<rparr>"
  note step = FindDexFile_loop_step [OF lt, of p r p' d' location]
  show ?case
  proof (cases k)
    case 0
    then show ?thesis using step rd ok recs Suc.prems(4) by simp
  next
    case (Suc k')
    have w: "forward_walk X f n p' (data ?r) = (c', rest)" using rest by simp
    have s: "unat (i + 1) + n = unat (NumDexFiles X (header f))"
      using Suc.prems(2) word32_succ [OF lt] by simp
    have k': "k' < length rest" using Suc.prems(3) recs Suc by simp
    have m: "location_matches X location (rest ! k')" using Suc.prems(4) recs Suc by simp
    have nm: "\<forall>j<k'. \<not> location_matches X location (rest ! j)"
      using Suc.prems(5) recs Suc by auto
    have "\<not> location_matches X location d'" using Suc.prems(5) recs Suc by auto
    then have "FindDexFile_loop X f location i p r = FindDexFile_loop X f location (i + 1) p' ?r"
      using step rd ok by simp
    then show ?thesis using Suc.IH [OF w s k' m nm] recs Suc by (simp add: add.assoc)
  qed
qed

lemma FindDexFile_loop_success:
  "FindDexFile_loop X f location i p r = (True, r') \<Longrightarrow>
     oat_file r' = Some f \<and> i \<le> index r' \<and> index r' < NumDexFiles X (header f)
     \<and> location_matches X location (data r')
     \<and> (\<exists>recs. forward_walk X f (Suc (unat (index r') - unat i)) p (data r) = (True, recs)
           \<and> data r' = last recs)"
proof (induction X f location i p r rule: FindDexFile_loop.induct)
  case (1 X f location i p r)
  have lt: "i < NumDexFiles X (header f)"
    using "1.prems" by (simp add: FindDexFile_loop.simps [of X f location i] split: if_splits)
  obtain ok p' d' where rd: "ReadOatDexFileData X p (oat_end f) (data r) (header f) = (ok, p', d')"
    by (cases "ReadOatDexFileData X p (oat_end f) (data r) (header f)") auto
  have ok: ok
    using "1.prems" lt rd by (cases ok) (simp_all add: FindDexFile_loop.simps [of X f location i])
  let ?r = "r\<lparr>data := d', oat_file := Some f, index := i\<rparr>"
  note step = FindDexFile_loop_step [OF lt, of p r p' d' location]
  show ?case
  proof (cases "location_matches X location d'")
    case True
    then have "r' = ?r" using step rd ok "1.prems" by simp
    then show ?thesis using lt rd ok True by simp
  next
    case False
    then have rec: "FindDexFile_loop X f location (i + 1) p' ?r = (True, r')"
      using step rd ok "1.prems" by simp
    have nm: "\<not> (strlen location = unat (str_length (location_string d'))
        \<and> strncmp (cstr_at location) (\<lambda>k. mem8 X (str_content (location_string d') + k))
              (strlen location) = 0)"
      using False by (simp add: match_iff)
    have ih: "oat_file r' = Some f \<and> i + 1 \<le> index r' \<and> index r' < NumDexFiles X (header f)
      \<and> location_matches X location (data r')
      \<and> (\<exists>recs. forward_walk X f (Suc (unat (index r') - unat (i + 1))) p' (data ?r) = (True, recs)
           \<and> data r' = last recs)"
    proof (cases "strlen location \<noteq> unat (str_length (location_string d'))")
      case True
      show ?thesis
        by (rule "1.IH"(1) [OF lt rd [symmetric] refl _ refl True rec]) (simp add: ok)
    next
      case False
      with nm have nz: "strncmp (cstr_at location)
          (\<lambda>k. mem8 X (str_content (location_string d') + k)) (strlen location) \<noteq> 0" by simp
      show ?thesis
        by (rule "1.IH"(2) [OF lt rd [symmetric] refl _ refl False nz rec]) (simp add: ok)
    qed
    then obtain recs where
      w: "forward_walk X f (Suc (unat (index r') - unat (i + 1))) p' d' = (True, recs)"
      and l: "data r' = last recs" by auto
    have s: "unat (i + 1) = Suc (unat i)" using lt by (rule word32_succ)
    have le: "Suc (unat i) \<le> unat (index r')" using ih s by (simp add: word_le_nat_alt)
    have n: "Suc (unat (index r') - unat i) = Suc (Suc (unat (index r') - unat (i + 1)))"
      using s le by simp
    have ne: "recs \<noteq> []" using forward_walk_length [OF w] by auto
    have "forward_walk X f (Suc (unat (index r') - unat i)) p (data r) = (True, d' # recs)"
      unfolding n using rd ok w by simp
    moreover have "i \<le> index r'" using le by (simp add: word_le_nat_alt)
    ultimately show ?thesis using ih l ne by simp
  qed
qed

lemma sample_walk:
  "forward_walk sample_image sample_oat (unat (NumDexFiles sample_image (header sample_oat)))
     (GetDexFileStoragePointer sample_image (header sample_oat)) d
   = (True, [sample_record0, sample_record1])"
proof -
  have n: "unat (NumDexFiles sample_image (header sample_oat)) = Suc (Suc 0)"
    by (simp add: sample_defs)
  show ?thesis unfolding n by (simp add: sample_defs)
qed

text \<open>
  C5. For a well-formed image (a full forward walk decodes all \<open>NumDexFiles\<close> records)
  and every index \<open>i\<close> below \<open>NumDexFiles\<close>, \<open>oat_GetOatDexFile\<close> succeeds with the
  \<open>i\<close>-th record of the walk, so with the same location string; for every index at or
  above \<open>NumDexFiles\<close> it fails and leaves the result untouched.
\<close>

theorem C5_get_by_index:
  assumes "forward_walk X f (unat (NumDexFiles X (header f)))
             (GetDexFileStoragePointer X (header f)) (data r) = (True, recs)"
  shows "(\<forall>i. i < NumDexFiles X (header f) \<longrightarrow>
            (\<exists>r'. oat_GetOatDexFile X (Some f) (Some r) i = (True, Some r')
               \<and> data r' = recs ! unat i
               \<and> location_bytes X (data r') = location_bytes X (recs ! unat i)))
       \<and> (\<forall>i. NumDexFiles X (header f) \<le> i \<longrightarrow>
            oat_GetOatDexFile X (Some f) (Some r) i = (False, Some r))"
proof (intro conjI allI impI)
  fix i assume lt: "i < NumDexFiles X (header f)"
  have nz: "i + 1 \<noteq> 0" using lt by unat_arith
  have b: "unat i - unat (0::32 word) < unat (NumDexFiles X (header f))"
    using lt by (simp add: word_less_nat_alt)
  have "GetOatDexFile_loop X f i 0 (GetDexFileStoragePointer X (header f)) r
          = (True, r\<lparr>data := recs ! (unat i - unat (0::32 word))\<rparr>)"
    by (rule GetOatDexFile_loop_walk [OF assms _ nz b]) simp
  then show "\<exists>r'. oat_GetOatDexFile X (Some f) (Some r) i = (True, Some r')
               \<and> data r' = recs ! unat i
               \<and> location_bytes X (data r') = location_bytes X (recs ! unat i)"
    using lt by (simp add: oat_GetOatDexFile_def)
next
  fix i assume "NumDexFiles X (header f) \<le> i"
  then show "oat_GetOatDexFile X (Some f) (Some r) i = (False, Some r)"
    by (simp add: oat_GetOatDexFile_def not_less)
qed

lemma sample_get0:
  "oat_GetOatDexFile sample_image (Some sample_oat) (Some blank_dex_file) 0
     = (True, Some sample_dex0)"
  by (simp add: oat_GetOatDexFile_def GetOatDexFile_loop.simps sample_defs)

lemma sample_get1:
  "oat_GetOatDexFile sample_image (Some sample_oat) (Some blank_dex_file) 1
     = (True, Some sample_dex1)"
  by (simp add: oat_GetOatDexFile_def GetOatDexFile_loop.simps sample_defs)

theorem C5_get_by_index_witness:
  "forward_walk sample_image sample_oat (unat (NumDexFiles sample_image (header sample_oat)))
     (GetDexFileStoragePointer sample_image (header sample_oat)) (data blank_dex_file)
     = (True, [sample_record0, sample_record1])
   \<and> (\<exists>r'. oat_GetOatDexFile sample_image (Some sample_oat) (Some blank_dex_file) 1
               = (True, Some r')
          \<and> data r' = sample_record1 \<and> location_bytes sample_image (data r') = ''classes2.dex'')
   \<and> oat_GetOatDexFile sample_image (Some sample_oat) (Some blank_dex_file) 2
       = (False, Some blank_dex_file)"
proof -
  have bytes: "location_bytes sample_image sample_record1 = ''classes2.dex''"
    by (simp add: location_bytes_def sample_defs upt_rec)
  have one: "(1::32 word) < NumDexFiles sample_image (header sample_oat)"
    and two: "NumDexFiles sample_image (header sample_oat) \<le> (2::32 word)"
    by (simp_all add: sample_defs)
  note C5 = C5_get_by_index [OF sample_walk [of "data blank_dex_file"]]
  from C5 one have "\<exists>r'. oat_GetOatDexFile sample_image (Some sample_oat) (Some blank_dex_file) 1
               = (True, Some r')
          \<and> data r' = [sample_record0, sample_record1] ! unat (1::32 word)
          \<and> location_bytes sample_image (data r')
              = location_bytes sample_image ([sample_record0, sample_record1] ! unat (1::32 word))"
    by blast
  moreover from C5 two have
    "oat_GetOatDexFile sample_image (Some sample_oat) (Some blank_dex_file) 2
       = (False, Some blank_dex_file)"
    by blast
  ultimately show ?thesis using sample_walk [of "data blank_dex_file"] bytes by simp
qed

text \<open>
  C6. \<open>oat_FindDexFile\<close> returns true only with a record whose location string equals
  the query in length and content. If no record decoded by the forward walk matches
  exactly, it returns false (so also for a query that is a proper prefix or suffix of a
  location string); if some record matches, it returns the first such record, with its
  position as index.
\<close>

theorem C6_find_by_location:
  "(\<forall>r'. oat_FindDexFile X (Some f) (Some r) (Some location) = (True, Some r')
        \<longrightarrow> location_matches X location (data r'))
   \<and> (\<forall>complete recs.
        forward_walk X f (unat (NumDexFiles X (header f)))
          (GetDexFileStoragePointer X (header f)) (data r) = (complete, recs)
        \<longrightarrow> ((\<forall>d\<in>set recs. \<not> location_matches X location d)
               \<longrightarrow> fst (oat_FindDexFile X (Some f) (Some r) (Some location)) = False)
          \<and> (\<forall>k<length recs.
                 location_matches X location (recs ! k)
                 \<and> (\<forall>j<k. \<not> location_matches X location (recs ! j))
               \<longrightarrow> oat_FindDexFile X (Some f) (Some r) (Some location)
                     = (True, Some (r\<lparr>data := recs ! k, oat_file := Some f,
                                       index := of_nat k\<rparr>))))"
proof (intro conjI allI impI ballI)
  fix r' assume "oat_FindDexFile X (Some f) (Some r) (Some location) = (True, Some r')"
  then have "FindDexFile_loop X f location 0 (GetDexFileStoragePointer X (header f)) r = (True, r')"
    by (auto simp: oat_FindDexFile_def split: prod.splits)
  then show "location_matches X location (data r')"
    by (blast dest: FindDexFile_loop_success)
next
  fix complete recs
  assume w: "forward_walk X f (unat (NumDexFiles X (header f)))
          (GetDexFileStoragePointer X (header f)) (data r) = (complete, recs)"
    and nm: "\<forall>d\<in>set recs. \<not> location_matches X location d"
  have "fst (FindDexFile_loop X f location 0 (GetDexFileStoragePointer X (header f)) r) = False"
    by (rule FindDexFile_loop_no_match [OF w _ nm]) simp
  then show "fst (oat_FindDexFile X (Some f) (Some r) (Some location)) = False"
    by (auto simp: oat_FindDexFile_def split: prod.splits)
next
  fix complete recs k
  assume w: "forward_walk X f (unat (NumDexFiles X (header f)))
          (GetDexFileStoragePointer X (header f)) (data r) = (complete, recs)"
    and k: "k < length recs"
    and m: "location_matches X location (recs ! k)
              \<and> (\<forall>j<k. \<not> location_matches X location (recs ! j))"
  have "FindDexFile_loop X f location 0 (GetDexFileStoragePointer X (header f)) r
          = (True, r\<lparr>data := recs ! k, oat_file := Some f, index := 0 + of_nat k\<rparr>)"
    by (rule FindDexFile_loop_first_match [OF w _ k]) (use m in simp_all)
  then show "oat_FindDexFile X (Some f) (Some r) (Some location)
                     = (True, Some (r\<lparr>data := recs ! k, oat_file := Some f,
                                       index := of_nat k\<rparr>))"
    by (simp add: oat_FindDexFile_def)
qed

lemma sample_bytes0: "location_bytes sample_image sample_record0 = ''classes.dex''"
  by (simp add: location_bytes_def sample_defs upt_rec)

lemma sample_bytes1: "location_bytes sample_image sample_record1 = ''classes2.dex''"
  by (simp add: location_bytes_def sample_defs upt_rec)

text \<open>On the sample image: \<open>classes\<close> is a proper prefix and \<open>.dex\<close> a proper suffix of
  \<open>classes.dex\<close>, and neither is found.\<close>

theorem C6_find_by_location_witness:
  "fst (oat_FindDexFile sample_image (Some sample_oat) (Some blank_dex_file) (Some ''classes'')) = False
   \<and> fst (oat_FindDexFile sample_image (Some sample_oat) (Some blank_dex_file) (Some ''.dex'')) = False
   \<and> oat_FindDexFile sample_image (Some sample_oat) (Some blank_dex_file) (Some ''classes.dex'')
       = (True, Some sample_dex0)
   \<and> oat_FindDexFile sample_image (Some sample_oat) (Some blank_dex_file) (Some ''classes2.dex'')
       = (True, Some sample_dex1)"
proof -
  note w = sample_walk [of "data blank_dex_file"]
  note m = location_matches_def sample_bytes0 sample_bytes1 c_str_def NUL_def
  have a: "fst (oat_FindDexFile sample_image (Some sample_oat) (Some blank_dex_file)
             (Some ''classes'')) = False"
    by (rule C6_find_by_location [of sample_image sample_oat blank_dex_file "''classes''",
          THEN conjunct2, rule_format, OF w, THEN conjunct1, rule_format])
       (auto simp: m)
  have b: "fst (oat_FindDexFile sample_image (Some sample_oat) (Some blank_dex_file)
             (Some ''.dex'')) = False"
    by (rule C6_find_by_location [of sample_image sample_oat blank_dex_file "''.dex''",
          THEN conjunct2, rule_format, OF w, THEN conjunct1, rule_format])
       (auto simp: m)
  have c: "oat_FindDexFile sample_image (Some sample_oat) (Some blank_dex_file)
             (Some ''classes.dex'')
           = (True, Some (blank_dex_file\<lparr>data := [sample_record0, sample_record1] ! 0,
                oat_file := Some sample_oat, index := of_nat 0\<rparr>))"
    by (rule C6_find_by_location [of sample_image sample_oat blank_dex_file "''classes.dex''",
          THEN conjunct2, rule_format, OF w, THEN conjunct2, rule_format])
       (auto simp: m less_Suc_eq_0_disj)
  have d: "oat_FindDexFile sample_image (Some sample_oat) (Some blank_dex_file)
             (Some ''classes2.dex'')
           = (True, Some (blank_dex_file\<lparr>data := [sample_record0, sample_record1] ! 1,
                oat_file := Some sample_oat, index := of_nat 1\<rparr>))"
    by (rule C6_find_by_location [of sample_image sample_oat blank_dex_file "''classes2.dex''",
          THEN conjunct2, rule_format, OF w, THEN conjunct2, rule_format])
       (auto simp: m less_Suc_eq_0_disj)
  show ?thesis using a b c d by (simp add: sample_dex0_def sample_dex1_def blank_dex_file_def)
qed

lemma GetOatDexFile_loop_success:
  "GetOatDexFile_loop X f idx i p r = (True, r') \<Longrightarrow> i < idx + 1 \<Longrightarrow>
     \<exists>recs. forward_walk X f (unat (idx + 1) - unat i) p (data r) = (True, recs)
       \<and> r' = r\<lparr>data := last recs\<rparr>"
proof (induction X f idx i p r rule: GetOatDexFile_loop.induct)
  case (1 X f idx i p r)
  note lt = "1.prems"(2)
  obtain ok p' d' where rd: "ReadOatDexFileData X p (oat_end f) (data r) (header f) = (ok, p', d')"
    by (cases "ReadOatDexFileData X p (oat_end f) (data r) (header f)") auto
  have ok: ok
    using "1.prems" rd by (cases ok) (simp_all add: GetOatDexFile_loop.simps [of X f idx i])
  have rec: "GetOatDexFile_loop X f idx (i + 1) p' (r\<lparr>data := d'\<rparr>) = (True, r')"
    using "1.prems" rd ok by (simp add: GetOatDexFile_loop.simps [of X f idx i])
  have s: "unat (i + 1) = Suc (unat i)" using lt by (rule word32_succ)
  have n: "unat (idx + 1) - unat i = Suc (unat (idx + 1) - unat (i + 1))"
    using lt s by (simp add: word_less_nat_alt)
  show ?case
  proof (cases "i + 1 < idx + 1")
    case True
    have "\<exists>recs. forward_walk X f (unat (idx + 1) - unat (i + 1)) p' (data (r\<lparr>data := d'\<rparr>))
              = (True, recs) \<and> r' = r\<lparr>data := d'\<rparr>\<lparr>data := last recs\<rparr>"
      by (rule "1.IH" [OF lt rd [symmetric] refl _ rec True]) (simp add: ok)
    then obtain recs where
      w: "forward_walk X f (unat (idx + 1) - unat (i + 1)) p' d' = (True, recs)"
      and r': "r' = r\<lparr>data := last recs\<rparr>" by auto
    have "0 < unat (idx + 1) - unat (i + 1)" using True by (simp add: word_less_nat_alt)
    then have ne: "recs \<noteq> []" using forward_walk_length [OF w] by auto
    have "forward_walk X f (unat (idx + 1) - unat i) p (data r) = (True, d' # recs)"
      unfolding n using rd ok w by simp
    then show ?thesis using r' ne by simp
  next
    case False
    then have r': "r' = r\<lparr>data := d'\<rparr>"
      using rec by (simp add: GetOatDexFile_loop.simps [of X f idx "i + 1"])
    have "unat (idx + 1) - unat (i + 1) = 0" using False by (simp add: word_less_nat_alt)
    then have "forward_walk X f (unat (idx + 1) - unat i) p (data r) = (True, [d'])"
      unfolding n using rd ok by simp
    then show ?thesis using r' by simp
  qed
qed

section \<open>Back-references\<close>

text \<open>
  C10. Whenever a lookup returns true, the back-references of the result are the
  operation's inputs: \<open>oat_FindDexFile\<close> and \<open>oat_GetOatDexFile\<close> set \<open>oat_file\<close> to
  the image context queried and \<open>index\<close> to the position of the returned record in the
  stream (the record is the one a forward walk decodes at that position, and for
  \<open>oat_GetOatDexFile\<close> the position is the index asked for); \<open>oat_FindClassInDex\<close> sets
  \<open>oat_dex_file\<close> to the dex-file record given; \<open>oat_FindDirectMethod\<close> and
  \<open>oat_FindVirtualMethod\<close> set \<open>oat_class\<close> to the class record given.
\<close>

theorem C10_back_references:
  "(\<forall>res. oat_FindDexFile X p_oat_file result location = (True, res) \<longrightarrow>
      (\<exists>f r r'. p_oat_file = Some f \<and> result = Some r \<and> res = Some r'
         \<and> oat_file r' = p_oat_file \<and> index r' < NumDexFiles X (header f)
         \<and> (\<exists>recs. forward_walk X f (Suc (unat (index r')))
                      (GetDexFileStoragePointer X (header f)) (data r) = (True, recs)
                \<and> data r' = recs ! unat (index r'))))
   \<and> (\<forall>res. oat_GetOatDexFile X p_oat_file result idx = (True, res) \<longrightarrow>
      (\<exists>f r r'. p_oat_file = Some f \<and> result = Some r \<and> res = Some r'
         \<and> oat_file r' = p_oat_file \<and> index r' = idx
         \<and> (\<exists>recs. forward_walk X f (Suc (unat idx))
                      (GetDexFileStoragePointer X (header f)) (data r) = (True, recs)
                \<and> data r' = recs ! unat idx)))
   \<and> (\<forall>res. oat_FindClassInDex X p_oat_dex_file clazz descriptor = Inr (True, res) \<longrightarrow>
      (\<exists>d c'. p_oat_dex_file = Some d \<and> res = Some c' \<and> oat_dex_file c' = p_oat_dex_file))
   \<and> (\<forall>res. oat_FindDirectMethod X p_oat_class meth descriptor signature = (True, res) \<longrightarrow>
      (\<exists>c m'. p_oat_class = Some c \<and> res = Some m' \<and> oat_class m' = p_oat_class))
   \<and> (\<forall>res. oat_FindVirtualMethod X p_oat_class meth descriptor signature = (True, res) \<longrightarrow>
      (\<exists>c m'. p_oat_class = Some c \<and> res = Some m' \<and> oat_class m' = p_oat_class))"
proof (intro conjI allI impI)
  fix res assume a: "oat_FindDexFile X p_oat_file result location = (True, res)"
  then obtain f r loc r' where p: "p_oat_file = Some f" "result = Some r" "location = Some loc"
    and res: "res = Some r'"
    and l: "FindDexFile_loop X f loc 0 (GetDexFileStoragePointer X (header f)) r = (True, r')"
    by (auto simp: oat_FindDexFile_def split: option.splits prod.splits)
  from FindDexFile_loop_success [OF l] obtain recs where
    b: "oat_file r' = Some f" "index r' < NumDexFiles X (header f)"
    and w: "forward_walk X f (Suc (unat (index r'))) (GetDexFileStoragePointer X (header f))
              (data r) = (True, recs)"
    and d: "data r' = last recs" by auto
  have "length recs = Suc (unat (index r'))" by (rule forward_walk_length [OF w])
  then have "last recs = recs ! unat (index r')"
    by (cases recs rule: rev_cases) (auto simp: nth_append)
  then show "\<exists>f r r'. p_oat_file = Some f \<and> result = Some r \<and> res = Some r'
         \<and> oat_file r' = p_oat_file \<and> index r' < NumDexFiles X (header f)
         \<and> (\<exists>recs. forward_walk X f (Suc (unat (index r')))
                      (GetDexFileStoragePointer X (header f)) (data r) = (True, recs)
                \<and> data r' = recs ! unat (index r'))"
    using p res b w d by auto
next
  fix res assume a: "oat_GetOatDexFile X p_oat_file result idx = (True, res)"
  then obtain f r r0 where p: "p_oat_file = Some f" "result = Some r"
    and lt: "idx < NumDexFiles X (header f)"
    and l: "GetOatDexFile_loop X f idx 0 (GetDexFileStoragePointer X (header f)) r = (True, r0)"
    and res: "res = Some (r0\<lparr>oat_file := Some f, index := idx\<rparr>)"
    by (auto simp: oat_GetOatDexFile_def split: option.splits prod.splits if_splits)
  have s: "unat (idx + 1) = Suc (unat idx)" using lt by (rule word32_succ)
  have z: "(0::32 word) < idx + 1" using s by (simp add: word_less_nat_alt)
  from GetOatDexFile_loop_success [OF l z] s obtain recs where
    w: "forward_walk X f (Suc (unat idx)) (GetDexFileStoragePointer X (header f)) (data r)
          = (True, recs)"
    and r0: "r0 = r\<lparr>data := last recs\<rparr>" by auto
  have "length recs = Suc (unat idx)" by (rule forward_walk_length [OF w])
  then have "last recs = recs ! unat idx"
    by (cases recs rule: rev_cases) (auto simp: nth_append)
  then show "\<exists>f r r'. p_oat_file = Some f \<and> result = Some r \<and> res = Some r'
         \<and> oat_file r' = p_oat_file \<and> index r' = idx
         \<and> (\<exists>recs. forward_walk X f (Suc (unat idx))
                      (GetDexFileStoragePointer X (header f)) (data r) = (True, recs)
                \<and> data r' = recs ! unat idx)"
    using p res w r0 by auto
next
  fix res assume "oat_FindClassInDex X p_oat_dex_file clazz descriptor = Inr (True, res)"
  then show "\<exists>d c'. p_oat_dex_file = Some d \<and> res = Some c' \<and> oat_dex_file c' = p_oat_dex_file"
    by (auto simp: oat_FindClassInDex_def Let_def split: option.splits prod.splits if_splits)
next
  fix res assume "oat_FindDirectMethod X p_oat_class meth descriptor signature = (True, res)"
  then show "\<exists>c m'. p_oat_class = Some c \<and> res = Some m' \<and> oat_class m' = p_oat_class"
    by (auto simp: oat_FindDirectMethod_def Let_def split: option.splits prod.splits if_splits)
next
  fix res assume "oat_FindVirtualMethod X p_oat_class meth descriptor signature = (True, res)"
  then show "\<exists>c m'. p_oat_class = Some c \<and> res = Some m' \<and> oat_class m' = p_oat_class"
    by (auto simp: oat_FindVirtualMethod_def Let_def split: option.splits prod.splits if_splits)
qed

lemma sample_find_dex1:
  "oat_FindDexFile sample_image (Some sample_oat) (Some blank_dex_file) (Some ''classes2.dex'')
     = (True, Some sample_dex1)"
  by (simp add: oat_FindDexFile_def FindDexFile_loop.simps sample_defs strlen_def c_str_def
      NUL_def cstr_at_def)

lemma sample_class_in_dex1:
  "oat_FindClassInDex sample_image (Some sample_dex1) (Some blank_class) (Some ''LFoo;'')
     = Inr (True, Some \<lparr>dex_class = \<lparr>class_def = 6100\<rparr>, oat_class_data = 4608,
                          oat_dex_file = Some sample_dex1\<rparr>)"
  by (simp add: oat_FindClassInDex_def oat_PointerFromFileOffset_def sample_defs)

lemma sample_direct_init:
  "oat_FindDirectMethod sample_image (Some c) (Some blank_method) (Some ''<init>'') (Some ''()V'')
     = (True, Some \<lparr>dex_method = \<lparr>class_method_idx = 0\<rparr>,
                     oat_method_offsets = Some \<lparr>code_offset = 1024\<rparr>, oat_class = Some c\<rparr>)"
  by (simp add: oat_FindDirectMethod_def sample_defs)

lemma sample_virtual_run:
  "oat_FindVirtualMethod sample_image (Some c) (Some blank_method) (Some ''run'') (Some ''()V'')
     = (True, Some \<lparr>dex_method = \<lparr>class_method_idx = 2\<rparr>,
                     oat_method_offsets = None, oat_class = Some c\<rparr>)"
  by (simp add: oat_FindVirtualMethod_def sample_defs)

theorem C10_back_references_witness:
  "oat_FindDexFile sample_image (Some sample_oat) (Some blank_dex_file) (Some ''classes2.dex'')
     = (True, Some sample_dex1)
   \<and> oat_file sample_dex1 = Some sample_oat \<and> index sample_dex1 = 1
   \<and> oat_GetOatDexFile sample_image (Some sample_oat) (Some blank_dex_file) 1
     = (True, Some sample_dex1)
   \<and> (\<exists>c'. oat_FindClassInDex sample_image (Some sample_dex1) (Some blank_class) (Some ''LFoo;'')
             = Inr (True, Some c') \<and> oat_dex_file c' = Some sample_dex1)
   \<and> (\<exists>m'. oat_FindDirectMethod sample_image (Some blank_class) (Some blank_method)
             (Some ''<init>'') (Some ''()V'') = (True, Some m')
          \<and> oat_class m' = Some blank_class)
   \<and> (\<exists>m'. oat_FindVirtualMethod sample_image (Some blank_class) (Some blank_method)
             (Some ''run'') (Some ''()V'') = (True, Some m')
          \<and> oat_class m' = Some blank_class)"
proof -
  have a: "oat_file sample_dex1 = Some sample_oat"
    using C10_back_references [where X = sample_image and p_oat_file = "Some sample_oat"
        and result = "Some blank_dex_file" and location = "Some ''classes2.dex''",
        THEN conjunct1, rule_format, OF sample_find_dex1]
    by auto
  have b: "index sample_dex1 = 1"
    using C10_back_references [where X = sample_image and p_oat_file = "Some sample_oat"
        and result = "Some blank_dex_file" and idx = 1,
        THEN conjunct2, THEN conjunct1, rule_format, OF sample_get1]
    by auto
  have c: "\<exists>c'. oat_FindClassInDex sample_image (Some sample_dex1) (Some blank_class)
             (Some ''LFoo;'') = Inr (True, Some c') \<and> oat_dex_file c' = Some sample_dex1"
    using C10_back_references [where X = sample_image and p_oat_dex_file = "Some sample_dex1"
        and clazz = "Some blank_class" and descriptor = "Some ''LFoo;''",
        THEN conjunct2, THEN conjunct2, THEN conjunct1, rule_format, OF sample_class_in_dex1]
      sample_class_in_dex1
    by auto
  have d: "\<exists>m'. oat_FindDirectMethod sample_image (Some blank_class) (Some blank_method)
             (Some ''<init>'') (Some ''()V'') = (True, Some m')
          \<and> oat_class m' = Some blank_class"
    using C10_back_references [where X = sample_image and p_oat_class = "Some blank_class"
        and meth = "Some blank_method" and descriptor = "Some ''<init>''"
        and signature = "Some ''()V''",
        THEN conjunct2, THEN conjunct2, THEN conjunct2, THEN conjunct1, rule_format,
        OF sample_direct_init]
      sample_direct_init [of blank_class]
    by auto
  have e: "\<exists>m'. oat_FindVirtualMethod sample_image (Some blank_class) (Some blank_method)
             (Some ''run'') (Some ''()V'') = (True, Some m')
          \<and> oat_class m' = Some blank_class"
    using C10_back_references [where X = sample_image and p_oat_class = "Some blank_class"
        and meth = "Some blank_method" and descriptor = "Some ''run''"
        and signature = "Some ''()V''",
        THEN conjunct2, THEN conjunct2, THEN conjunct2, THEN conjunct2, rule_format,
        OF sample_virtual_run]
      sample_virtual_run [of blank_class]
    by auto
  show ?thesis using sample_find_dex1 sample_get1 a b c d e by simp
qed

section \<open>The two variants of the class resolver\<close>

text \<open>
  C4, as amended. With all pointer arguments non-null, the terse \<open>oat_FindClass\<close> and
  the richer \<open>oat_FindClassInDex\<close> return the same outcome whenever the offset-table
  entry of the class found is not zero (and whenever the class is not found). Where the
  class is found and the dex-file record has its image context, the terse variant decodes
  the class metadata at \<open>begin + entry\<close>, and the richer one at the same pointer for a
  non-zero entry but at the null pointer for the entry 0.
\<close>

theorem C4_class_resolver_variants:
  "((\<forall>dc. dex_FindClass X (dex_file_pointer (data d)) (dex_class c) s = (True, dc)
         \<longrightarrow> class_def_offset X d dc \<noteq> 0)
      \<longrightarrow> oat_FindClass_terse X (Some d) (Some c) (Some s)
          = oat_FindClassInDex X (Some d) (Some c) (Some s))
   \<and> (\<forall>dc f. dex_FindClass X (dex_file_pointer (data d)) (dex_class c) s = (True, dc)
         \<and> oat_file d = Some f
      \<longrightarrow> oat_FindClass_terse X (Some d) (Some c) (Some s)
            = class_decoded_at X d c dc f (oat_begin f + unat (class_def_offset X d dc))
        \<and> oat_FindClassInDex X (Some d) (Some c) (Some s)
            = class_decoded_at X d c dc f
                (if class_def_offset X d dc = 0 then NULL
                 else oat_begin f + unat (class_def_offset X d dc)))"
  by (auto simp: oat_FindClass_terse_def oat_FindClassInDex_def oat_PointerFromFileOffset_def
      class_def_offset_def class_decoded_at_def Let_def
      split: option.splits prod.splits)

text \<open>The claim as stated fails for \<open>LBar;\<close> in the first dex file of the sample image,
  whose offset-table entry is 0: the terse variant decodes the metadata at \<open>begin\<close> and
  succeeds, the richer one hands the null pointer to the decoder and returns false.\<close>

theorem C4_zero_offset_counterexample:
  "oat_FindClass_terse sample_image (Some sample_dex0) (Some blank_class) (Some ''LBar;'')
     = Inr (True, Some \<lparr>dex_class = \<lparr>class_def = 5132\<rparr>, oat_class_data = 4096,
                          oat_dex_file = Some sample_dex0\<rparr>)
   \<and> oat_FindClassInDex sample_image (Some sample_dex0) (Some blank_class) (Some ''LBar;'')
     = Inr (False, Some \<lparr>dex_class = \<lparr>class_def = 5132\<rparr>, oat_class_data = 0,
                           oat_dex_file = None\<rparr>)"
  by (simp add: oat_FindClass_terse_def oat_FindClassInDex_def oat_PointerFromFileOffset_def
      sample_defs)

theorem C4_class_resolver_variants_witness:
  "oat_FindClass_terse sample_image (Some sample_dex1) (Some blank_class) (Some ''LFoo;'')
     = oat_FindClassInDex sample_image (Some sample_dex1) (Some blank_class) (Some ''LFoo;'')
   \<and> oat_FindClass_terse sample_image (Some sample_dex1) (Some blank_class) (Some ''LFoo;'')
     = Inr (True, Some \<lparr>dex_class = \<lparr>class_def = 6100\<rparr>, oat_class_data = 4608,
                          oat_dex_file = Some sample_dex1\<rparr>)
   \<and> oat_FindClass_terse sample_image (Some sample_dex0) (Some blank_class) (Some ''LBar;'')
     = class_decoded_at sample_image sample_dex0 blank_class \<lparr>class_def = 5132\<rparr> sample_oat 4096
   \<and> oat_FindClassInDex sample_image (Some sample_dex0) (Some blank_class) (Some ''LBar;'')
     = class_decoded_at sample_image sample_dex0 blank_class \<lparr>class_def = 5132\<rparr> sample_oat NULL"
proof -
  have f1: "dex_FindClass sample_image (dex_file_pointer (data sample_dex1))
              (dex_class blank_class) ''LFoo;'' = (True, \<lparr>class_def = 6100\<rparr>)"
    by (simp add: sample_defs)
  have o1: "class_def_offset sample_image sample_dex1 \<lparr>class_def = 6100\<rparr> = 512"
    by (simp add: class_def_offset_def sample_defs)
  have f0: "dex_FindClass sample_image (dex_file_pointer (data sample_dex0))
              (dex_class blank_class) ''LBar;'' = (True, \<lparr>class_def = 5132\<rparr>)"
    by (simp add: sample_defs)
  have o0: "class_def_offset sample_image sample_dex0 \<lparr>class_def = 5132\<rparr> = 0"
    by (simp add: class_def_offset_def sample_defs)
  have a: "oat_FindClass_terse sample_image (Some sample_dex1) (Some blank_class) (Some ''LFoo;'')
     = oat_FindClassInDex sample_image (Some sample_dex1) (Some blank_class) (Some ''LFoo;'')"
    by (rule C4_class_resolver_variants [of sample_image sample_dex1 blank_class "''LFoo;''",
          THEN conjunct1, rule_format])
       (simp add: f1 o1)
  have b: "oat_FindClass_terse sample_image (Some sample_dex0) (Some blank_class) (Some ''LBar;'')
            = class_decoded_at sample_image sample_dex0 blank_class \<lparr>class_def = 5132\<rparr> sample_oat
                (oat_begin sample_oat
                 + unat (class_def_offset sample_image sample_dex0 \<lparr>class_def = 5132\<rparr>))
        \<and> oat_FindClassInDex sample_image (Some sample_dex0) (Some blank_class) (Some ''LBar;'')
            = class_decoded_at sample_image sample_dex0 blank_class \<lparr>class_def = 5132\<rparr> sample_oat
                (if class_def_offset sample_image sample_dex0 \<lparr>class_def = 5132\<rparr> = 0 then NULL
                 else oat_begin sample_oat
                      + unat (class_def_offset sample_image sample_dex0 \<lparr>class_def = 5132\<rparr>))"
    by (rule C4_class_resolver_variants [of sample_image sample_dex0 blank_class "''LBar;''",
          THEN conjunct2, rule_format])
       (simp add: f0, simp add: sample_defs)
  have c: "oat_begin sample_oat = 4096" by (simp add: sample_defs)
  show ?thesis using a b sample_class_in_dex1 by (simp add: o0 c)
qed

section \<open>Search across the dex-file records\<close>

lemma upt_shift: "map (\<lambda>k. (i::32 word) + of_nat k) [0..<Suc n]
    = i # map (\<lambda>k. (i + 1) + of_nat k) [0..<n]"
proof -
  have "[0..<Suc n] = 0 # map Suc [0..<n]"
    by (simp add: upt_conv_Cons map_Suc_upt del: upt_Suc)
  then show ?thesis by (simp add: add.assoc del: upt_Suc)
qed

lemma FindClass_loop_search:
  "unat i + n = unat (dex_file_count (header_at X (header oat))) \<Longrightarrow>
   FindClass_loop X oat descriptor i rd rc
     = first_success_search X oat descriptor (map (\<lambda>k. i + of_nat k) [0..<n]) rd rc"
proof (induction n arbitrary: i rd rc)
  case 0
  then have "\<not> i < dex_file_count (header_at X (header oat))" by (simp add: word_less_nat_alt)
  then show ?case by (simp add: FindClass_loop.simps [of X oat descriptor i])
next
  case (Suc n)
  have lt: "i < dex_file_count (header_at X (header oat))"
    using Suc.prems by (simp add: word_less_nat_alt)
  have s: "unat (i + 1) + n = unat (dex_file_count (header_at X (header oat)))"
    using Suc.prems word32_succ [OF lt] by simp
  show ?case
    unfolding upt_shift
    using lt Suc.IH [OF s]
    by (simp add: FindClass_loop.simps [of X oat descriptor i]
        split: prod.splits sum.splits)
qed

text \<open>
  C3, as amended. \<open>oat_FindClass\<close> (richer variant) is the first-success search over the
  indices \<open>0, 1, ..., dex_file_count - 1\<close> in this order: at each index it calls
  \<open>oat_GetOatDexFile\<close> and then the class resolver \<open>oat_FindClassInDex\<close>. A failing
  \<open>oat_GetOatDexFile\<close> (the dex-file record cannot be decoded, or the index is out of
  range) ends the search at once with \<open>false\<close>, whatever the later indices hold; the
  first success of the class resolver ends it with \<open>true\<close>; a class resolver that
  returns \<open>false\<close>, be it for a class that is not there or for class metadata that
  cannot be decoded, moves the search on to the next index.
\<close>

theorem C3_find_class_across_file:
  "oat_FindClass X oat_dex_ignored oat_class_ignored (Some oat) result_oat_dex_file
       result_clazz (Some descriptor)
     = (case first_success_search X oat descriptor
               (map of_nat [0..<unat (dex_file_count (header_at X (header oat)))])
               (if result_oat_dex_file = None then Some oat_dex_ignored
                else result_oat_dex_file)
               (if result_clazz = None then Some oat_class_ignored else result_clazz) of
          Inl e \<Rightarrow> Inl e
        | Inr (ret, rd, rc) \<Rightarrow>
            Inr (ret, if result_oat_dex_file = None then None else rd,
                      if result_clazz = None then None else rc))
   \<and> (fst (oat_GetOatDexFile X (Some oat) rd i) = False \<longrightarrow>
        first_success_search X oat descriptor (i # rest) rd rc
          = Inr (False, snd (oat_GetOatDexFile X (Some oat) rd i), rc))
   \<and> (\<forall>rd' rc'. oat_GetOatDexFile X (Some oat) rd i = (True, rd')
          \<and> oat_FindClassInDex X rd' rc (Some descriptor) = Inr (True, rc') \<longrightarrow>
        first_success_search X oat descriptor (i # rest) rd rc = Inr (True, rd', rc'))
   \<and> (\<forall>rd' rc'. oat_GetOatDexFile X (Some oat) rd i = (True, rd')
          \<and> oat_FindClassInDex X rd' rc (Some descriptor) = Inr (False, rc') \<longrightarrow>
        first_success_search X oat descriptor (i # rest) rd rc
          = first_success_search X oat descriptor rest rd' rc')"
proof -
  have "FindClass_loop X oat descriptor 0 rd0 rc0
      = first_success_search X oat descriptor
          (map of_nat [0..<unat (dex_file_count (header_at X (header oat)))]) rd0 rc0"
    for rd0 rc0
    using FindClass_loop_search [of 0 "unat (dex_file_count (header_at X (header oat)))" X oat
        descriptor rd0 rc0]
    by simp
  then show ?thesis
    by (auto simp: oat_FindClass_def split: prod.splits sum.splits)
qed

lemma sample_class_in_dex0_LFoo:
  "oat_FindClassInDex sample_image (Some sample_dex0) (Some blank_class) (Some ''LFoo;'')
     = Inr (False, Some (blank_class\<lparr>dex_class := \<lparr>class_def = 5100\<rparr>\<rparr>))"
  by (simp add: oat_FindClassInDex_def oat_PointerFromFileOffset_def sample_defs)

lemma sample_find_class_LFoo:
  "oat_FindClass sample_image blank_dex_file blank_class (Some sample_oat)
       (Some blank_dex_file) (Some blank_class) (Some ''LFoo;'')
     = Inr (True, Some sample_dex1,
            Some \<lparr>dex_class = \<lparr>class_def = 6100\<rparr>, oat_class_data = 4608,
                  oat_dex_file = Some sample_dex1\<rparr>)"
  by (simp add: oat_FindClass_def FindClass_loop.simps oat_GetOatDexFile_def
      GetOatDexFile_loop.simps oat_FindClassInDex_def oat_PointerFromFileOffset_def sample_defs)

text \<open>The claim as stated fails on the sample image for \<open>LFoo;\<close>: the first dex file
  defines the class, its offset-table entry points past \<open>end\<close> and the class metadata
  cannot be decoded, yet the search goes on to the second dex-file record and returns
  \<open>true\<close> from there.\<close>

theorem C3_class_decode_failure_counterexample:
  "oat_GetOatDexFile sample_image (Some sample_oat) (Some blank_dex_file) 0
     = (True, Some sample_dex0)
   \<and> dex_FindClass sample_image (dex_file_pointer (data sample_dex0)) (dex_class blank_class)
       ''LFoo;'' = (True, \<lparr>class_def = 5100\<rparr>)
   \<and> oat_PointerFromFileOffset (oat_file sample_dex0)
       (class_def_offset sample_image sample_dex0 \<lparr>class_def = 5100\<rparr>) = 24576
   \<and> DecodeOatClassData sample_image 24576 (oat_end sample_oat) (oat_class_data blank_class)
       = (False, 0)
   \<and> oat_FindClassInDex sample_image (Some sample_dex0) (Some blank_class) (Some ''LFoo;'')
       = Inr (False, Some (blank_class\<lparr>dex_class := \<lparr>class_def = 5100\<rparr>\<rparr>))
   \<and> oat_FindClass sample_image blank_dex_file blank_class (Some sample_oat)
       (Some blank_dex_file) (Some blank_class) (Some ''LFoo;'')
     = Inr (True, Some sample_dex1,
            Some \<lparr>dex_class = \<lparr>class_def = 6100\<rparr>, oat_class_data = 4608,
                  oat_dex_file = Some sample_dex1\<rparr>)"
proof -
  have "oat_PointerFromFileOffset (oat_file sample_dex0)
       (class_def_offset sample_image sample_dex0 \<lparr>class_def = 5100\<rparr>) = 24576"
    by (simp add: oat_PointerFromFileOffset_def class_def_offset_def sample_defs)
  moreover have "dex_FindClass sample_image (dex_file_pointer (data sample_dex0))
       (dex_class blank_class) ''LFoo;'' = (True, \<lparr>class_def = 5100\<rparr>)"
    by (simp add: sample_defs)
  moreover have "DecodeOatClassData sample_image 24576 (oat_end sample_oat)
       (oat_class_data blank_class) = (False, 0)"
    by (simp add: sample_defs)
  ultimately show ?thesis
    using sample_get0 sample_class_in_dex0_LFoo sample_find_class_LFoo by simp
qed

theorem C3_find_class_across_file_witness:
  "first_success_search sample_image sample_oat ''LFoo;'' [0, 1]
       (Some blank_dex_file) (Some blank_class)
     = first_success_search sample_image sample_oat ''LFoo;'' [1]
         (Some sample_dex0) (Some (blank_class\<lparr>dex_class := \<lparr>class_def = 5100\<rparr>\<rparr>))
   \<and> oat_FindClass sample_image blank_dex_file blank_class (Some sample_oat)
       (Some blank_dex_file) (Some blank_class) (Some ''LFoo;'')
     = first_success_search sample_image sample_oat ''LFoo;'' [0, 1]
         (Some blank_dex_file) (Some blank_class)
   \<and> first_success_search sample_image (sample_oat\<lparr>oat_end := 4240\<rparr>) ''LFoo;'' [1, 2]
       (Some blank_dex_file) (Some blank_class)
     = Inr (False, Some (blank_dex_file\<lparr>data := sample_record0\<rparr>), Some blank_class)"
proof -
  have n: "map of_nat [0..<unat (dex_file_count (header_at sample_image (header sample_oat)))]
             = [0, 1 :: 32 word]"
    by (simp add: sample_defs upt_rec)
  have a: "first_success_search sample_image sample_oat ''LFoo;'' [0, 1]
       (Some blank_dex_file) (Some blank_class)
     = first_success_search sample_image sample_oat ''LFoo;'' [1]
         (Some sample_dex0) (Some (blank_class\<lparr>dex_class := \<lparr>class_def = 5100\<rparr>\<rparr>))"
    by (rule C3_find_class_across_file [where X = sample_image and oat = sample_oat
          and descriptor = "''LFoo;''" and i = 0 and rest = "[1]"
          and rd = "Some blank_dex_file" and rc = "Some blank_class",
          THEN conjunct2, THEN conjunct2, THEN conjunct2, rule_format])
       (simp add: sample_get0 sample_class_in_dex0_LFoo)
  have b: "oat_FindClass sample_image blank_dex_file blank_class (Some sample_oat)
       (Some blank_dex_file) (Some blank_class) (Some ''LFoo;'')
     = first_success_search sample_image sample_oat ''LFoo;'' [0, 1]
         (Some blank_dex_file) (Some blank_class)"
    using C3_find_class_across_file [where X = sample_image and oat = sample_oat
          and descriptor = "''LFoo;''" and oat_dex_ignored = blank_dex_file
          and oat_class_ignored = blank_class and result_oat_dex_file = "Some blank_dex_file"
          and result_clazz = "Some blank_class", THEN conjunct1]
    by (simp add: n split: sum.splits prod.splits)
  have g: "oat_GetOatDexFile sample_image (Some (sample_oat\<lparr>oat_end := 4240\<rparr>))
             (Some blank_dex_file) 1 = (False, Some (blank_dex_file\<lparr>data := sample_record0\<rparr>))"
    by (simp add: oat_GetOatDexFile_def GetOatDexFile_loop.simps sample_defs)
  have c: "first_success_search sample_image (sample_oat\<lparr>oat_end := 4240\<rparr>) ''LFoo;'' [1, 2]
       (Some blank_dex_file) (Some blank_class)
     = Inr (False, snd (oat_GetOatDexFile sample_image (Some (sample_oat\<lparr>oat_end := 4240\<rparr>))
                          (Some blank_dex_file) 1), Some blank_class)"
    by (rule C3_find_class_across_file [where X = sample_image
          and oat = "sample_oat\<lparr>oat_end := 4240\<rparr>"
          and descriptor = "''LFoo;''" and i = 1 and rest = "[2]"
          and rd = "Some blank_dex_file" and rc = "Some blank_class",
          THEN conjunct2, THEN conjunct1, rule_format])
       (simp add: g)
  show ?thesis using a b c by (simp add: g)
qed

section \<open>Outcomes of the search operations\<close>

lemma FindClassInDex_outcome:
  "oat_file d = Some fl \<Longrightarrow>
   \<exists>c'. oat_FindClassInDex X (Some d) (Some c) (Some descriptor)
          = Inr (find_class_outcome X d fl c descriptor = Found, Some c')"
  by (auto simp: oat_FindClassInDex_def find_class_outcome_def class_def_offset_def Let_def
      split: prod.splits)

lemma FindClassInDex_no_fault:
  "oat_file d = Some fl \<Longrightarrow> \<exists>b c'. oat_FindClassInDex X (Some d) rc s = Inr (b, c')"
  by (auto simp: oat_FindClassInDex_def Let_def split: prod.splits option.splits)

lemma GetOatDexFile_sets_context:
  "oat_GetOatDexFile X (Some oat) rd i = (True, rd') \<Longrightarrow>
     \<exists>d. rd' = Some d \<and> oat_file d = Some oat"
  by (auto simp: oat_GetOatDexFile_def split: option.splits prod.splits if_splits)

lemma first_success_search_outcome:
  "\<exists>rd' rc'. first_success_search X oat descriptor idxs rd rc
      = Inr (find_class_across_file_outcome X oat descriptor idxs rd rc failed = Found, rd', rc')"
proof (induction idxs arbitrary: rd rc failed)
  case Nil
  then show ?case by simp
next
  case (Cons i rest)
  obtain ok rd1 where g: "oat_GetOatDexFile X (Some oat) rd i = (ok, rd1)"
    by (cases "oat_GetOatDexFile X (Some oat) rd i") auto
  show ?case
  proof (cases ok)
    case False
    then show ?thesis using g by simp
  next
    case True
    have g': "oat_GetOatDexFile X (Some oat) rd i = (True, rd1)" using g True by simp
    obtain d where d: "rd1 = Some d" "oat_file d = Some oat"
      using GetOatDexFile_sets_context [OF g'] by blast
    obtain b rc1 where c: "oat_FindClassInDex X (Some d) rc (Some descriptor) = Inr (b, rc1)"
      using FindClassInDex_no_fault [OF d(2)] by blast
    show ?thesis
    proof (cases b)
      case True
      then show ?thesis using g \<open>ok\<close> d c by simp
    next
      case False
      then show ?thesis
        using g \<open>ok\<close> d c
          Cons.IH [of rd1 rc1 "failed \<or> (case (rd1, rc) of
                                        (Some d, Some c) \<Rightarrow>
                                          find_class_outcome X d oat c descriptor = Failure
                                      | _ \<Rightarrow> False)"]
        by simp
    qed
  qed
qed

lemma FindDexFile_outcome:
  "fst (oat_FindDexFile X (Some f) (Some r) (Some location))
     = (find_by_location_outcome X f (data r) location = Found)"
proof -
  obtain complete recs where w: "forward_walk X f (unat (NumDexFiles X (header f)))
             (GetDexFileStoragePointer X (header f)) (data r) = (complete, recs)"
    by (cases "forward_walk X f (unat (NumDexFiles X (header f)))
             (GetDexFileStoragePointer X (header f)) (data r)") auto
  have z: "unat (0::32 word) + unat (NumDexFiles X (header f)) = unat (NumDexFiles X (header f))"
    by simp
  show ?thesis
  proof (cases "\<exists>rec\<in>set recs. location_matches X location rec")
    case True
    then have "\<exists>k. k < length recs \<and> location_matches X location (recs ! k)"
      by (auto simp: in_set_conv_nth)
    then obtain k where k: "k < length recs \<and> location_matches X location (recs ! k)"
      and least: "\<forall>j<k. \<not> (j < length recs \<and> location_matches X location (recs ! j))"
      using exists_least_iff [of "\<lambda>k. k < length recs \<and> location_matches X location (recs ! k)"]
      by auto
    have nm: "\<forall>j<k. \<not> location_matches X location (recs ! j)" using k least by auto
    have "FindDexFile_loop X f location 0 (GetDexFileStoragePointer X (header f)) r
            = (True, r\<lparr>data := recs ! k, oat_file := Some f, index := 0 + of_nat k\<rparr>)"
      using FindDexFile_loop_first_match [OF w z _ _ nm] k by blast
    then show ?thesis using True w
      by (simp add: oat_FindDexFile_def find_by_location_outcome_def)
  next
    case False
    then have nm: "\<forall>d\<in>set recs. \<not> location_matches X location d" by blast
    have "fst (FindDexFile_loop X f location 0 (GetDexFileStoragePointer X (header f)) r) = False"
      by (rule FindDexFile_loop_no_match [OF w z nm])
    then show ?thesis using False w
      by (auto simp: oat_FindDexFile_def find_by_location_outcome_def split: prod.splits)
  qed
qed

text \<open>
  C2, as amended. Every search operation reports a Boolean, which is \<open>true\<close> exactly
  when the outcome is found, and so \<open>false\<close> both for not found and for failure:
  \<open>oat_FindDexFile\<close> returns \<open>true\<close> exactly when a record decoded by the walk
  matches the location; \<open>oat_FindClassInDex\<close> (on a dex-file record with its image
  context) exactly when the DEX parser finds the class and its metadata can be decoded;
  \<open>oat_FindClass\<close> exactly when the class resolver succeeds at a dex-file record the
  search reaches; \<open>oat_FindDirectMethod\<close> and \<open>oat_FindVirtualMethod\<close> exactly when
  the DEX parser finds the method (they have no decode step).
\<close>

theorem C2_boolean_outcomes:
  "fst (oat_FindDexFile X (Some f) (Some r) (Some location))
     = (find_by_location_outcome X f (data r) location = Found)
   \<and> (oat_file d = Some fl \<longrightarrow>
        (\<exists>c'. oat_FindClassInDex X (Some d) (Some c) (Some descriptor)
               = Inr (find_class_outcome X d fl c descriptor = Found, Some c')))
   \<and> (\<exists>rd' rc'. oat_FindClass X oat_dex_ignored oat_class_ignored (Some f)
                   result_oat_dex_file result_clazz (Some descriptor)
        = Inr (find_class_across_file_outcome X f descriptor
                 (map of_nat [0..<unat (dex_file_count (header_at X (header f)))])
                 (if result_oat_dex_file = None then Some oat_dex_ignored
                  else result_oat_dex_file)
                 (if result_clazz = None then Some oat_class_ignored else result_clazz)
                 False = Found,
               rd', rc'))
   \<and> fst (oat_FindDirectMethod X (Some c) (Some m) (Some descriptor) (Some signature))
       = fst (dex_FindDirectMethod X (dex_class c) (dex_method m) descriptor signature)
   \<and> fst (oat_FindVirtualMethod X (Some c) (Some m) (Some descriptor) (Some signature))
       = fst (dex_FindVirtualMethod X (dex_class c) (dex_method m) descriptor signature)"
proof (intro conjI impI)
  show "fst (oat_FindDexFile X (Some f) (Some r) (Some location))
     = (find_by_location_outcome X f (data r) location = Found)"
    by (rule FindDexFile_outcome)
next
  assume "oat_file d = Some fl"
  then show "\<exists>c'. oat_FindClassInDex X (Some d) (Some c) (Some descriptor)
               = Inr (find_class_outcome X d fl c descriptor = Found, Some c')"
    by (rule FindClassInDex_outcome)
next
  let ?idxs = "map of_nat [0..<unat (dex_file_count (header_at X (header f)))] :: 32 word list"
  let ?rd = "if result_oat_dex_file = None then Some oat_dex_ignored else result_oat_dex_file"
  let ?rc = "if result_clazz = None then Some oat_class_ignored else result_clazz"
  have l: "FindClass_loop X f descriptor 0 ?rd ?rc
      = first_success_search X f descriptor ?idxs ?rd ?rc"
    using FindClass_loop_search [of 0 "unat (dex_file_count (header_at X (header f)))" X f
        descriptor ?rd ?rc]
    by simp
  obtain rd' rc' where s: "first_success_search X f descriptor ?idxs ?rd ?rc
      = Inr (find_class_across_file_outcome X f descriptor ?idxs ?rd ?rc False = Found, rd', rc')"
    using first_success_search_outcome [of X f descriptor ?idxs ?rd ?rc False] by blast
  show "\<exists>rd' rc'. oat_FindClass X oat_dex_ignored oat_class_ignored (Some f)
                   result_oat_dex_file result_clazz (Some descriptor)
        = Inr (find_class_across_file_outcome X f descriptor ?idxs ?rd ?rc False = Found,
               rd', rc')"
    unfolding oat_FindClass_def using l s by simp
next
  show "fst (oat_FindDirectMethod X (Some c) (Some m) (Some descriptor) (Some signature))
       = fst (dex_FindDirectMethod X (dex_class c) (dex_method m) descriptor signature)"
    by (auto simp: oat_FindDirectMethod_def split: prod.splits)
next
  show "fst (oat_FindVirtualMethod X (Some c) (Some m) (Some descriptor) (Some signature))
       = fst (dex_FindVirtualMethod X (dex_class c) (dex_method m) descriptor signature)"
    by (auto simp: oat_FindVirtualMethod_def split: prod.splits)
qed

lemma sample_one_record_outcome:
  "find_by_location_outcome sample_image_one_record sample_oat (data blank_dex_file)
     ''classes2.dex'' = NotFound"
proof -
  have n: "unat (NumDexFiles sample_image_one_record (header sample_oat)) = Suc 0"
    by (simp add: sample_variant_defs sample_defs)
  have w: "forward_walk sample_image_one_record sample_oat (Suc 0)
      (GetDexFileStoragePointer sample_image_one_record (header sample_oat))
      (data blank_dex_file) = (True, [sample_record0])"
    by (simp add: sample_variant_defs sample_defs)
  have b: "location_bytes sample_image_one_record sample_record0 = ''classes.dex''"
    by (simp add: location_bytes_def sample_variant_defs sample_defs upt_rec)
  show ?thesis
    unfolding find_by_location_outcome_def n w
    by (simp add: location_matches_def b c_str_def NUL_def)
qed

lemma sample_corrupt_outcome:
  "find_by_location_outcome sample_image_corrupt sample_oat (data blank_dex_file)
     ''classes2.dex'' = Failure"
proof -
  have n: "unat (NumDexFiles sample_image_corrupt (header sample_oat)) = Suc (Suc 0)"
    by (simp add: sample_variant_defs sample_defs)
  have w: "forward_walk sample_image_corrupt sample_oat (Suc (Suc 0))
      (GetDexFileStoragePointer sample_image_corrupt (header sample_oat))
      (data blank_dex_file) = (False, [sample_record0])"
    by (simp add: sample_variant_defs sample_defs)
  have b: "location_bytes sample_image_corrupt sample_record0 = ''classes.dex''"
    by (simp add: location_bytes_def sample_variant_defs sample_defs upt_rec)
  show ?thesis
    unfolding find_by_location_outcome_def n w
    by (simp add: location_matches_def b c_str_def NUL_def)
qed

lemma sample_one_record_find:
  "oat_FindDexFile sample_image_one_record (Some sample_oat) (Some blank_dex_file)
     (Some ''classes2.dex'') = (False, Some sample_dex0)"
  by (simp add: oat_FindDexFile_def FindDexFile_loop.simps sample_variant_defs sample_defs
      strlen_def c_str_def NUL_def cstr_at_def)

lemma sample_corrupt_find:
  "oat_FindDexFile sample_image_corrupt (Some sample_oat) (Some blank_dex_file)
     (Some ''classes2.dex'') = (False, Some sample_dex0)"
  by (simp add: oat_FindDexFile_def FindDexFile_loop.simps sample_variant_defs sample_defs
      strlen_def c_str_def NUL_def cstr_at_def)

text \<open>The claim as stated fails. The same call of \<open>oat_FindDexFile\<close> on the image with
  one record (nothing matches: not found) and on the image whose second record cannot be
  decoded (failure) returns \<open>false\<close> and leaves the same result struct. The same call
  of \<open>oat_FindClassInDex\<close> with a DEX parser that does not know the class (not found)
  and on the sample image, where the class metadata lies past \<open>end\<close> (failure), returns
  \<open>false\<close> and leaves the same result struct.\<close>

theorem C2_same_result_counterexample:
  "find_by_location_outcome sample_image_one_record sample_oat (data blank_dex_file)
     ''classes2.dex'' = NotFound
   \<and> oat_FindDexFile sample_image_one_record (Some sample_oat) (Some blank_dex_file)
       (Some ''classes2.dex'') = (False, Some sample_dex0)
   \<and> find_by_location_outcome sample_image_corrupt sample_oat (data blank_dex_file)
       ''classes2.dex'' = Failure
   \<and> oat_FindDexFile sample_image_corrupt (Some sample_oat) (Some blank_dex_file)
       (Some ''classes2.dex'') = (False, Some sample_dex0)
   \<and> find_class_outcome sample_image_no_classes sample_dex0 sample_oat reused_class ''LFoo;''
       = NotFound
   \<and> oat_FindClassInDex sample_image_no_classes (Some sample_dex0) (Some reused_class)
       (Some ''LFoo;'') = Inr (False, Some reused_class)
   \<and> find_class_outcome sample_image sample_dex0 sample_oat reused_class ''LFoo;'' = Failure
   \<and> oat_FindClassInDex sample_image (Some sample_dex0) (Some reused_class) (Some ''LFoo;'')
       = Inr (False, Some reused_class)"
proof -
  have a: "find_class_outcome sample_image_no_classes sample_dex0 sample_oat reused_class
      ''LFoo;'' = NotFound"
    by (simp add: find_class_outcome_def sample_variant_defs sample_defs)
  have b: "oat_FindClassInDex sample_image_no_classes (Some sample_dex0) (Some reused_class)
       (Some ''LFoo;'') = Inr (False, Some reused_class)"
    by (simp add: oat_FindClassInDex_def sample_variant_defs sample_defs)
  have c: "find_class_outcome sample_image sample_dex0 sample_oat reused_class ''LFoo;''
      = Failure"
    by (simp add: find_class_outcome_def class_def_offset_def oat_PointerFromFileOffset_def
        sample_variant_defs sample_defs)
  have d: "oat_FindClassInDex sample_image (Some sample_dex0) (Some reused_class)
      (Some ''LFoo;'') = Inr (False, Some reused_class)"
    by (simp add: oat_FindClassInDex_def oat_PointerFromFileOffset_def sample_variant_defs
        sample_defs)
  show ?thesis
    using sample_one_record_outcome sample_one_record_find sample_corrupt_outcome
      sample_corrupt_find a b c d
    by simp
qed

lemma sample_outcome_found:
  "find_by_location_outcome sample_image sample_oat (data blank_dex_file) ''classes2.dex''
     = Found"
  unfolding find_by_location_outcome_def sample_walk
  by (simp add: location_matches_def sample_bytes0 sample_bytes1 c_str_def NUL_def)

lemma sample_outcome_not_found:
  "find_by_location_outcome sample_image sample_oat (data blank_dex_file) ''classes3.dex''
     = NotFound"
  unfolding find_by_location_outcome_def sample_walk
  by (simp add: location_matches_def sample_bytes0 sample_bytes1 c_str_def NUL_def)

lemma sample_across_LFoo:
  "find_class_across_file_outcome sample_image sample_oat ''LFoo;'' [0, 1]
     (Some blank_dex_file) (Some blank_class) False = Found"
  by (simp add: oat_GetOatDexFile_def GetOatDexFile_loop.simps oat_FindClassInDex_def
      oat_PointerFromFileOffset_def find_class_outcome_def class_def_offset_def sample_defs)

lemma sample_across_LBar:
  "find_class_across_file_outcome sample_image sample_oat ''LBar;'' [0, 1]
     (Some blank_dex_file) (Some blank_class) False = Failure"
  by (simp add: oat_GetOatDexFile_def GetOatDexFile_loop.simps oat_FindClassInDex_def
      oat_PointerFromFileOffset_def find_class_outcome_def class_def_offset_def sample_defs)

lemma sample_across_missing:
  "find_class_across_file_outcome sample_image sample_oat ''LMissing;'' [0, 1]
     (Some blank_dex_file) (Some blank_class) False = NotFound"
  by (simp add: oat_GetOatDexFile_def GetOatDexFile_loop.simps oat_FindClassInDex_def
      oat_PointerFromFileOffset_def find_class_outcome_def class_def_offset_def sample_defs)

lemma sample_indices:
  "map of_nat [0..<unat (dex_file_count (header_at sample_image (header sample_oat)))]
     = [0, 1 :: 32 word]"
  by (simp add: sample_defs upt_rec)

theorem C2_boolean_outcomes_witness:
  "fst (oat_FindDexFile sample_image (Some sample_oat) (Some blank_dex_file)
          (Some ''classes2.dex'')) = True
   \<and> fst (oat_FindDexFile sample_image (Some sample_oat) (Some blank_dex_file)
            (Some ''classes3.dex'')) = False
   \<and> fst (oat_FindDexFile sample_image_corrupt (Some sample_oat) (Some blank_dex_file)
            (Some ''classes2.dex'')) = False
   \<and> (\<exists>c'. oat_FindClassInDex sample_image (Some sample_dex1) (Some blank_class)
             (Some ''LFoo;'') = Inr (True, Some c'))
   \<and> (\<exists>c'. oat_FindClassInDex sample_image (Some sample_dex0) (Some blank_class)
             (Some ''LFoo;'') = Inr (False, Some c'))
   \<and> (\<exists>c'. oat_FindClassInDex sample_image (Some sample_dex0) (Some blank_class)
             (Some ''LMissing;'') = Inr (False, Some c'))
   \<and> (\<exists>rd' rc'. oat_FindClass sample_image blank_dex_file blank_class (Some sample_oat)
             (Some blank_dex_file) (Some blank_class) (Some ''LFoo;'') = Inr (True, rd', rc'))
   \<and> (\<exists>rd' rc'. oat_FindClass sample_image blank_dex_file blank_class (Some sample_oat)
             (Some blank_dex_file) (Some blank_class) (Some ''LBar;'') = Inr (False, rd', rc'))
   \<and> (\<exists>rd' rc'. oat_FindClass sample_image blank_dex_file blank_class (Some sample_oat)
             (Some blank_dex_file) (Some blank_class) (Some ''LMissing;'')
           = Inr (False, rd', rc'))
   \<and> fst (oat_FindDirectMethod sample_image (Some blank_class) (Some blank_method)
            (Some ''helper'') (Some ''()V'')) = True
   \<and> fst (oat_FindVirtualMethod sample_image (Some blank_class) (Some blank_method)
            (Some ''helper'') (Some ''()V'')) = False"
proof -
  have a: "fst (oat_FindDexFile sample_image (Some sample_oat) (Some blank_dex_file)
          (Some ''classes2.dex'')) = True"
    using C2_boolean_outcomes [where X = sample_image and f = sample_oat
        and r = blank_dex_file and location = "''classes2.dex''", THEN conjunct1]
    by (simp add: sample_outcome_found)
  have b: "fst (oat_FindDexFile sample_image (Some sample_oat) (Some blank_dex_file)
            (Some ''classes3.dex'')) = False"
    using C2_boolean_outcomes [where X = sample_image and f = sample_oat
        and r = blank_dex_file and location = "''classes3.dex''", THEN conjunct1]
    by (simp add: sample_outcome_not_found)
  have c: "fst (oat_FindDexFile sample_image_corrupt (Some sample_oat) (Some blank_dex_file)
            (Some ''classes2.dex'')) = False"
    using C2_boolean_outcomes [where X = sample_image_corrupt and f = sample_oat
        and r = blank_dex_file and location = "''classes2.dex''", THEN conjunct1]
    by (simp add: sample_corrupt_outcome)
  have d1: "oat_file sample_dex1 = Some sample_oat" and d0: "oat_file sample_dex0 = Some sample_oat"
    by (simp_all add: sample_defs)
  have o1: "find_class_outcome sample_image sample_dex1 sample_oat blank_class ''LFoo;'' = Found"
    and o2: "find_class_outcome sample_image sample_dex0 sample_oat blank_class ''LFoo;''
               = Failure"
    and o3: "find_class_outcome sample_image sample_dex0 sample_oat blank_class ''LMissing;''
               = NotFound"
    by (simp_all add: find_class_outcome_def class_def_offset_def oat_PointerFromFileOffset_def
        sample_defs)
  have e: "\<exists>c'. oat_FindClassInDex sample_image (Some sample_dex1) (Some blank_class)
             (Some ''LFoo;'') = Inr (True, Some c')"
    using C2_boolean_outcomes [where X = sample_image and d = sample_dex1 and fl = sample_oat
        and c = blank_class and descriptor = "''LFoo;''",
        THEN conjunct2, THEN conjunct1, rule_format, OF d1]
    by (simp add: o1)
  have g: "\<exists>c'. oat_FindClassInDex sample_image (Some sample_dex0) (Some blank_class)
             (Some ''LFoo;'') = Inr (False, Some c')"
    using C2_boolean_outcomes [where X = sample_image and d = sample_dex0 and fl = sample_oat
        and c = blank_class and descriptor = "''LFoo;''",
        THEN conjunct2, THEN conjunct1, rule_format, OF d0]
    by (simp add: o2)
  have h: "\<exists>c'. oat_FindClassInDex sample_image (Some sample_dex0) (Some blank_class)
             (Some ''LMissing;'') = Inr (False, Some c')"
    using C2_boolean_outcomes [where X = sample_image and d = sample_dex0 and fl = sample_oat
        and c = blank_class and descriptor = "''LMissing;''",
        THEN conjunct2, THEN conjunct1, rule_format, OF d0]
    by (simp add: o3)
  have i: "\<exists>rd' rc'. oat_FindClass sample_image blank_dex_file blank_class (Some sample_oat)
             (Some blank_dex_file) (Some blank_class) (Some ''LFoo;'') = Inr (True, rd', rc')"
    using C2_boolean_outcomes [where X = sample_image and f = sample_oat
        and oat_dex_ignored = blank_dex_file and oat_class_ignored = blank_class
        and result_oat_dex_file = "Some blank_dex_file" and result_clazz = "Some blank_class"
        and descriptor = "''LFoo;''",
        THEN conjunct2, THEN conjunct2, THEN conjunct1]
    by (simp add: sample_indices sample_across_LFoo
        del: find_class_across_file_outcome.simps)
  have j: "\<exists>rd' rc'. oat_FindClass sample_image blank_dex_file blank_class (Some sample_oat)
             (Some blank_dex_file) (Some blank_class) (Some ''LBar;'') = Inr (False, rd', rc')"
    using C2_boolean_outcomes [where X = sample_image and f = sample_oat
        and oat_dex_ignored = blank_dex_file and oat_class_ignored = blank_class
        and result_oat_dex_file = "Some blank_dex_file" and result_clazz = "Some blank_class"
        and descriptor = "''LBar;''",
        THEN conjunct2, THEN conjunct2, THEN conjunct1]
    by (simp add: sample_indices sample_across_LBar
        del: find_class_across_file_outcome.simps)
  have k: "\<exists>rd' rc'. oat_FindClass sample_image blank_dex_file blank_class (Some sample_oat)
             (Some blank_dex_file) (Some blank_class) (Some ''LMissing;'')
           = Inr (False, rd', rc')"
    using C2_boolean_outcomes [where X = sample_image and f = sample_oat
        and oat_dex_ignored = blank_dex_file and oat_class_ignored = blank_class
        and result_oat_dex_file = "Some blank_dex_file" and result_clazz = "Some blank_class"
        and descriptor = "''LMissing;''",
        THEN conjunct2, THEN conjunct2, THEN conjunct1]
    by (simp add: sample_indices sample_across_missing
        del: find_class_across_file_outcome.simps)
  have l: "fst (oat_FindDirectMethod sample_image (Some blank_class) (Some blank_method)
            (Some ''helper'') (Some ''()V'')) = True"
    using C2_boolean_outcomes [where X = sample_image and c = blank_class
        and m = blank_method and descriptor = "''helper''" and signature = "''()V''",
        THEN conjunct2, THEN conjunct2, THEN conjunct2, THEN conjunct1]
    by (simp add: sample_defs)
  have m: "fst (oat_FindVirtualMethod sample_image (Some blank_class) (Some blank_method)
            (Some ''helper'') (Some ''()V'')) = False"
    using C2_boolean_outcomes [where X = sample_image and c = blank_class
        and m = blank_method and descriptor = "''helper''" and signature = "''()V''",
        THEN conjunct2, THEN conjunct2, THEN conjunct2, THEN conjunct2]
    by (simp add: sample_defs)
  show ?thesis using a b c e g h i j k l m by simp
qed

end
